theory Spec2Isabelle
  imports Main "HOL-Library.Word"
begin

unbundle bit_operations_syntax

section \<open>Streaming a shard directory to a tar archive and back (pkg/tar/stream.go)\<close>

text \<open>
  The development embeds the functions of \<^verbatim>\<open>pkg/tar/stream.go\<close>
  (\<^verbatim>\<open>Stream\<close>, \<^verbatim>\<open>SinceFilterTarFile\<close>, \<^verbatim>\<open>StreamFile\<close>,
  \<^verbatim>\<open>StreamRenameFile\<close>, \<^verbatim>\<open>Restore\<close>, \<^verbatim>\<open>extractFile\<close>,
  \<^verbatim>\<open>CreateFileFromTar\<close>) over explicit models of what they call: the lexical path
  functions of \<^verbatim>\<open>path/filepath\<close> (for either separator of the host), the
  \<^verbatim>\<open>archive/tar\<close> reader and writer, \<^verbatim>\<open>io.CopyN\<close>, and a file system holding regular
  files and directories, with the umask of the process.
\<close>

subsection \<open>Errors\<close>

datatype errno = ENOENT | ENOTDIR | EISDIR | EIO

text \<open>
  Go's \<^verbatim>\<open>error\<close> values that can arise here: the sentinels of \<^verbatim>\<open>io\<close> and
  \<^verbatim>\<open>archive/tar\<close>, messages built by \<^verbatim>\<open>fmt.Errorf\<close>, and \<^verbatim>\<open>*os.PathError\<close>
  (operation, path, errno). \<^verbatim>\<open>nil\<close> is \<open>None\<close> of \<open>error option\<close>.
\<close>

datatype error =
    EOF
  | ErrUnexpectedEOF
  | ErrHeader
  | ErrWriteTooLong
  | ErrWriteAfterClose
  | ErrMissedWriting int
  | Errorf string
  | PathError string string errno

type_synonym byte = "8 word"

subsection \<open>path/filepath and strings\<close>

text \<open>
  The path functions depend on the build: the separator is the slash on Unix and the
  backslash on Windows, where the slash separates too (\<^verbatim>\<open>os.IsPathSeparator\<close>). The
  functions with the suffix \<open>_on\<close> take the separator of the host as their first
  argument; the ones without are those of the Unix build, on which the rest of the
  model runs. The volume names of Windows paths (a drive letter, a UNC prefix) are
  not modelled.
\<close>

definition Separator :: char where
  "Separator = CHR ''/''"

definition IsPathSeparator :: "char \<Rightarrow> char \<Rightarrow> bool" where
  "IsPathSeparator sep c = (c = sep \<or> c = CHR ''/'')"

text \<open>\<^verbatim>\<open>strings.Split(s, sep)\<close> for a one-character separator: never the empty list.\<close>

fun strings_Split :: "string \<Rightarrow> char \<Rightarrow> string list" where
  "strings_Split [] c = [[]]"
| "strings_Split (x # xs) c =
     (if x = c then [] # strings_Split xs c
      else (case strings_Split xs c of
              [] \<Rightarrow> [[x]]
            | w # ws \<Rightarrow> (x # w) # ws))"

text \<open>\<^verbatim>\<open>strings.Join(elems, sep)\<close> for a one-character separator.\<close>

fun strings_Join :: "string list \<Rightarrow> char \<Rightarrow> string" where
  "strings_Join [] c = []"
| "strings_Join [e] c = e"
| "strings_Join (e # es) c = e @ c # strings_Join es c"

text \<open>
  \<^verbatim>\<open>filepath.FromSlash\<close> and \<^verbatim>\<open>filepath.ToSlash\<close>: the identity when the separator is
  the slash, a replacement of one by the other otherwise.
\<close>

definition FromSlash_on :: "char \<Rightarrow> string \<Rightarrow> string" where
  "FromSlash_on sep path =
     (if sep = CHR ''/'' then path
      else map (\<lambda>c. if c = CHR ''/'' then sep else c) path)"

definition ToSlash_on :: "char \<Rightarrow> string \<Rightarrow> string" where
  "ToSlash_on sep path =
     (if sep = CHR ''/'' then path
      else map (\<lambda>c. if c = sep then CHR ''/'' else c) path)"

definition FromSlash :: "string \<Rightarrow> string" where
  "FromSlash path = FromSlash_on Separator path"

definition ToSlash :: "string \<Rightarrow> string" where
  "ToSlash path = ToSlash_on Separator path"

text \<open>The elements of a path: what lies between its separators, empty elements too.\<close>

fun path_elems :: "char \<Rightarrow> string \<Rightarrow> string list" where
  "path_elems sep [] = [[]]"
| "path_elems sep (x # xs) =
     (if IsPathSeparator sep x then [] # path_elems sep xs
      else (case path_elems sep xs of
              [] \<Rightarrow> [[x]]
            | w # ws \<Rightarrow> (x # w) # ws))"

text \<open>
  The element loop of \<^verbatim>\<open>filepath.Clean\<close>: \<open>out\<close> is the output so far, last element
  first. Empty and \<^verbatim>\<open>.\<close> elements are dropped; \<^verbatim>\<open>..\<close> removes the last real
  element, is dropped at the root, and is kept at the front of a relative path.
\<close>

fun clean_elems :: "bool \<Rightarrow> string list \<Rightarrow> string list \<Rightarrow> string list" where
  "clean_elems rooted out [] = rev out"
| "clean_elems rooted out (e # es) =
     (if e = [] \<or> e = ''.'' then clean_elems rooted out es
      else if e = ''..'' then
        (case out of
           t # ts \<Rightarrow>
             (if t \<noteq> ''..'' then clean_elems rooted ts es
              else if rooted then clean_elems rooted out es
              else clean_elems rooted (''..'' # out) es)
         | [] \<Rightarrow>
             (if rooted then clean_elems rooted out es
              else clean_elems rooted (''..'' # out) es))
      else clean_elems rooted (e # out) es)"

definition Clean_on :: "char \<Rightarrow> string \<Rightarrow> string" where
  "Clean_on sep path =
     (if path = [] then ''.''
      else
        (let rooted = IsPathSeparator sep (hd path);
             out = strings_Join (clean_elems rooted [] (path_elems sep path)) sep
         in if rooted then sep # out
            else if out = [] then ''.''
            else out))"

definition Clean :: "string \<Rightarrow> string" where
  "Clean path = Clean_on Separator path"

text \<open>
  \<^verbatim>\<open>filepath.Join\<close>: empty elements before the first non-empty one are ignored, the
  rest is joined by the separator and cleaned; no non-empty element gives the empty
  string.
\<close>

definition Join_on :: "char \<Rightarrow> string list \<Rightarrow> string" where
  "Join_on sep elem =
     (case dropWhile (\<lambda>e. e = []) elem of
        [] \<Rightarrow> []
      | es \<Rightarrow> Clean_on sep (strings_Join es sep))"

definition Join :: "string list \<Rightarrow> string" where
  "Join elem = Join_on Separator elem"

text \<open>\<^verbatim>\<open>filepath.Split\<close>: the path up to and including its last separator, and the rest.\<close>

definition Split :: "string \<Rightarrow> string \<times> string" where
  "Split path =
     (let file = rev (takeWhile (\<lambda>c. c \<noteq> Separator) (rev path))
      in (take (length path - length file) path, file))"

subsection \<open>os.FileMode\<close>

type_synonym FileMode = "32 word"

definition ModeDir :: FileMode where "ModeDir = push_bit 31 1"
definition ModeSymlink :: FileMode where "ModeSymlink = push_bit 27 1"
definition ModeDevice :: FileMode where "ModeDevice = push_bit 26 1"
definition ModeNamedPipe :: FileMode where "ModeNamedPipe = push_bit 25 1"
definition ModeSocket :: FileMode where "ModeSocket = push_bit 24 1"
definition ModeCharDevice :: FileMode where "ModeCharDevice = push_bit 21 1"
definition ModeSetuid :: FileMode where "ModeSetuid = push_bit 23 1"
definition ModeSetgid :: FileMode where "ModeSetgid = push_bit 22 1"
definition ModeSticky :: FileMode where "ModeSticky = push_bit 20 1"
definition ModeIrregular :: FileMode where "ModeIrregular = push_bit 19 1"

definition ModeType :: FileMode where
  "ModeType = ModeDir OR ModeSymlink OR ModeNamedPipe OR ModeSocket OR ModeDevice
              OR ModeCharDevice OR ModeIrregular"

definition ModePerm :: FileMode where "ModePerm = 0x1FF"

definition IsDir :: "FileMode \<Rightarrow> bool" where
  "IsDir m = (m AND ModeDir \<noteq> 0)"

definition IsRegular :: "FileMode \<Rightarrow> bool" where
  "IsRegular m = (m AND ModeType = 0)"

definition Perm :: "FileMode \<Rightarrow> FileMode" where
  "Perm m = m AND ModePerm"

subsection \<open>archive/tar: headers and the reader\<close>

record Header =
  Typeflag :: char
  Name :: string
  Linkname :: string
  Size :: int
  Mode :: "64 word"
  ModTime :: int

definition TypeReg :: char where "TypeReg = CHR ''0''"
definition TypeLink :: char where "TypeLink = CHR ''1''"
definition TypeSymlink :: char where "TypeSymlink = CHR ''2''"
definition TypeChar :: char where "TypeChar = CHR ''3''"
definition TypeBlock :: char where "TypeBlock = CHR ''4''"
definition TypeDir :: char where "TypeDir = CHR ''5''"
definition TypeFifo :: char where "TypeFifo = CHR ''6''"

text \<open>
  The entries with a header only: the reader gives them no payload, whatever size their
  header declares (\<^verbatim>\<open>isHeaderOnlyType\<close>).
\<close>

definition isHeaderOnlyType :: "char \<Rightarrow> bool" where
  "isHeaderOnlyType flag =
     (flag = TypeLink \<or> flag = TypeSymlink \<or> flag = TypeChar \<or> flag = TypeBlock
      \<or> flag = TypeDir \<or> flag = TypeFifo)"

text \<open>
  The byte stream a \<^verbatim>\<open>tar.Reader\<close> decodes, record by record: a header with the bytes
  of its data section (fewer than \<open>Size\<close> only when the stream ends inside it), a block
  that does not decode, or the place where the stream was cut. The end of the list is
  the end of the archive.
\<close>

datatype tar_rec = Rec Header "byte list" | Corrupt | Truncated

text \<open>
  \<open>pending\<close> is what is left of the stream after the current entry, \<open>curr\<close> what the
  current entry still has to give.
\<close>

record Reader =
  pending :: "tar_rec list"
  curr :: "byte list"

definition NewReader :: "tar_rec list \<Rightarrow> Reader" where
  "NewReader r = \<lparr>pending = r, curr = []\<rparr>"

text \<open>
  \<^verbatim>\<open>tr.Next()\<close>: \<^verbatim>\<open>io.EOF\<close> at the end of the archive, \<^verbatim>\<open>tar.ErrHeader\<close> on a block
  that does not decode or declares a negative size, \<^verbatim>\<open>io.ErrUnexpectedEOF\<close> where the
  stream was cut (the reader stays there), else the header, with the reader positioned
  at the entry's payload: none for a header-only entry, the bytes of the data section
  otherwise, up to the declared size. A data section shorter than declared is a stream
  cut inside it.
\<close>

definition Next :: "Reader \<Rightarrow> (error + Header) \<times> Reader" where
  "Next tr =
     (case pending tr of
        [] \<Rightarrow> (Inl EOF, tr)
      | Corrupt # rs \<Rightarrow> (Inl ErrHeader, tr)
      | Truncated # rs \<Rightarrow> (Inl ErrUnexpectedEOF, tr)
      | Rec hdr payload # rs \<Rightarrow>
          (if Size hdr < 0 then (Inl ErrHeader, tr)
           else if isHeaderOnlyType (Typeflag hdr) then (Inr hdr, \<lparr>pending = rs, curr = []\<rparr>)
           else if int (length payload) < Size hdr
           then (Inr hdr, \<lparr>pending = Truncated # rs, curr = payload\<rparr>)
           else (Inr hdr, \<lparr>pending = rs, curr = take (nat (Size hdr)) payload\<rparr>)))"

subsection \<open>The file system\<close>

datatype node = File FileMode "byte list" | Dir FileMode

text \<open>
  \<open>nodes\<close> maps a cleaned path to what is there; \<open>synced\<close> lists the files whose
  contents were fsync'ed and \<open>dirsynced\<close> the directories whose entry list was, latest
  first; \<open>faulty\<close> holds the paths on which an fsync fails with \<^verbatim>\<open>EIO\<close>; \<open>umask\<close> is
  the file mode creation mask of the process. The root and the working directory
  always exist.
\<close>

record FS =
  nodes :: "string \<Rightarrow> node option"
  synced :: "string list"
  dirsynced :: "string list"
  faulty :: "string set"
  umask :: FileMode

definition stat :: "FS \<Rightarrow> string \<Rightarrow> node option" where
  "stat fs path =
     (if path = ''/'' \<or> path = ''.'' then Some (Dir 0x1ED) else nodes fs path)"

definition parent :: "string \<Rightarrow> string" where
  "parent path = (case Split path of (d, file) \<Rightarrow> Clean d)"

text \<open>
  \<^verbatim>\<open>os.MkdirAll(path, perm)\<close>: nothing to do when \<open>path\<close> is a directory, \<^verbatim>\<open>ENOTDIR\<close>
  when it is a file; otherwise the parent is created the same way and then \<open>path\<close>
  itself, with \<open>perm\<close> less the bits of the umask. \<open>mkdir_prefixes\<close> walks the prefixes
  of the path, shortest first, which is the order in which the recursion of
  \<^verbatim>\<open>MkdirAll\<close> reaches them.
\<close>

fun mkdir_prefixes :: "string list \<Rightarrow> FileMode \<Rightarrow> FS \<Rightarrow> error option \<times> FS" where
  "mkdir_prefixes [] perm fs = (None, fs)"
| "mkdir_prefixes (p # ps) perm fs =
     (case stat fs p of
        Some (Dir m) \<Rightarrow> mkdir_prefixes ps perm fs
      | Some (File m d) \<Rightarrow> (Some (PathError ''mkdir'' p ENOTDIR), fs)
      | None \<Rightarrow>
          mkdir_prefixes ps perm (fs\<lparr>nodes := (nodes fs)(p \<mapsto> Dir (perm AND NOT (umask fs)))\<rparr>))"

definition path_prefixes :: "string \<Rightarrow> string list" where
  "path_prefixes path =
     (let elems = strings_Split path Separator
      in filter (\<lambda>p. p \<noteq> [])
           (map (\<lambda>k. strings_Join (take k elems) Separator) [1 ..< Suc (length elems)]))"

definition MkdirAll :: "string \<Rightarrow> FileMode \<Rightarrow> FS \<Rightarrow> error option \<times> FS" where
  "MkdirAll path perm fs =
     (if path = [] then (Some (PathError ''mkdir'' path ENOENT), fs)
      else mkdir_prefixes (path_prefixes path) perm fs)"

text \<open>The flags of \<^verbatim>\<open>os.OpenFile\<close> (Linux values).\<close>

definition O_RDONLY :: "64 word" where "O_RDONLY = 0x0"
definition O_RDWR :: "64 word" where "O_RDWR = 0x2"
definition O_CREATE :: "64 word" where "O_CREATE = 0x40"
definition O_TRUNC :: "64 word" where "O_TRUNC = 0x200"

text \<open>An open file: its path and the offset of the next read or write.\<close>

record OsFile =
  fname :: string
  offset :: nat

text \<open>
  \<^verbatim>\<open>os.OpenFile(name, flag, perm)\<close>. A directory cannot be opened for writing. An
  existing file is opened as it is, and emptied only when \<^verbatim>\<open>O_TRUNC\<close> is among the
  flags; its mode is kept. A missing file is created, empty and with \<open>perm\<close> less the
  bits of the umask, when \<^verbatim>\<open>O_CREATE\<close> is among the flags and the parent is a directory.
\<close>

definition OpenFile :: "string \<Rightarrow> 64 word \<Rightarrow> FileMode \<Rightarrow> FS \<Rightarrow> (error + OsFile) \<times> FS" where
  "OpenFile name flag perm fs =
     (case stat fs name of
        Some (Dir m) \<Rightarrow>
          (if flag AND (O_RDWR OR O_CREATE) = 0 then (Inr \<lparr>fname = name, offset = 0\<rparr>, fs)
           else (Inl (PathError ''open'' name EISDIR), fs))
      | Some (File m d) \<Rightarrow>
          (Inr \<lparr>fname = name, offset = 0\<rparr>,
           if flag AND O_TRUNC \<noteq> 0 then fs\<lparr>nodes := (nodes fs)(name \<mapsto> File m [])\<rparr> else fs)
      | None \<Rightarrow>
          (if flag AND O_CREATE = 0 then (Inl (PathError ''open'' name ENOENT), fs)
           else
             (case stat fs (parent name) of
                Some (Dir m) \<Rightarrow>
                  (Inr \<lparr>fname = name, offset = 0\<rparr>,
                   fs\<lparr>nodes := (nodes fs)(name \<mapsto> File (perm AND NOT (umask fs)) [])\<rparr>)
              | Some (File m d) \<Rightarrow> (Inl (PathError ''open'' name ENOTDIR), fs)
              | None \<Rightarrow> (Inl (PathError ''open'' name ENOENT), fs))))"

text \<open>\<^verbatim>\<open>os.Open(name)\<close> is \<^verbatim>\<open>OpenFile(name, O_RDONLY, 0)\<close>.\<close>

definition Open :: "string \<Rightarrow> FS \<Rightarrow> (error + OsFile) \<times> FS" where
  "Open name fs = OpenFile name O_RDONLY 0 fs"

text \<open>
  \<^verbatim>\<open>f.Write(b)\<close>: the bytes replace what the file holds from the offset on, byte for
  byte; what lies beyond them stays.
\<close>

definition file_Write :: "OsFile \<Rightarrow> byte list \<Rightarrow> FS \<Rightarrow> error option \<times> OsFile \<times> FS" where
  "file_Write f b fs =
     (case nodes fs (fname f) of
        Some (File m d) \<Rightarrow>
          (None, f\<lparr>offset := offset f + length b\<rparr>,
           fs\<lparr>nodes := (nodes fs)(fname f \<mapsto>
                 File m (take (offset f) d @ b @ drop (offset f + length b) d))\<rparr>)
      | Some (Dir m) \<Rightarrow> (Some (PathError ''write'' (fname f) EISDIR), f, fs)
      | None \<Rightarrow> (Some (PathError ''write'' (fname f) ENOENT), f, fs))"

text \<open>\<^verbatim>\<open>f.Sync()\<close> and \<^verbatim>\<open>f.Close()\<close>.\<close>

definition file_Sync :: "OsFile \<Rightarrow> FS \<Rightarrow> error option \<times> FS" where
  "file_Sync f fs =
     (if fname f \<in> faulty fs then (Some (PathError ''sync'' (fname f) EIO), fs)
      else (None, fs\<lparr>synced := fname f # synced fs\<rparr>))"

definition file_Close :: "OsFile \<Rightarrow> FS \<Rightarrow> error option \<times> FS" where
  "file_Close f fs = (None, fs)"

text \<open>
  Modelled from the spec: \<^verbatim>\<open>file.RenameFile\<close> of \<^verbatim>\<open>pkg/file\<close> is not among the
  sources. The spec has it "atomically rename the temporary file onto the final
  destination path, replacing any prior contents"; as \<^verbatim>\<open>rename(2)\<close> it fails when the
  source is missing and when the destination is a directory.
\<close>

definition RenameFile :: "string \<Rightarrow> string \<Rightarrow> FS \<Rightarrow> error option \<times> FS" where
  "RenameFile oldpath newpath fs =
     (case stat fs oldpath of
        None \<Rightarrow> (Some (PathError ''rename'' oldpath ENOENT), fs)
      | Some (Dir m) \<Rightarrow> (Some (PathError ''rename'' oldpath EISDIR), fs)
      | Some (File m d) \<Rightarrow>
          (case stat fs newpath of
             Some (Dir m') \<Rightarrow> (Some (PathError ''rename'' newpath EISDIR), fs)
           | _ \<Rightarrow> (None, fs\<lparr>nodes := (nodes fs)(oldpath := None, newpath \<mapsto> File m d)\<rparr>)))"

text \<open>
  Modelled from the spec: \<^verbatim>\<open>file.SyncDir\<close> of \<^verbatim>\<open>pkg/file\<close> is not among the sources.
  The spec has it "force the directory entry list at path D to be durable": an fsync of
  the directory, which must exist.
\<close>

definition SyncDir :: "string \<Rightarrow> FS \<Rightarrow> error option \<times> FS" where
  "SyncDir dirName fs =
     (case stat fs dirName of
        Some (Dir m) \<Rightarrow>
          (if dirName \<in> faulty fs then (Some (PathError ''sync'' dirName EIO), fs)
           else (None, fs\<lparr>dirsynced := dirName # dirsynced fs\<rparr>))
      | Some (File m d) \<Rightarrow> (Some (PathError ''open'' dirName ENOTDIR), fs)
      | None \<Rightarrow> (Some (PathError ''open'' dirName ENOENT), fs))"

subsection \<open>Restore\<close>

text \<open>
  \<^verbatim>\<open>io.CopyN(f, tr, n)\<close> from the reader's current entry into an open file: what the
  entry still has, up to \<open>n\<close> bytes, is written. When that is fewer than \<open>n\<close> bytes the
  error is the reader's: \<^verbatim>\<open>io.ErrUnexpectedEOF\<close> when the stream was cut inside the
  entry, and \<^verbatim>\<open>io.EOF\<close> when the entry itself has no more (a header-only entry that
  declares a size, or an \<open>n\<close> above the entry's size).
\<close>

definition CopyN_from_tar :: "OsFile \<Rightarrow> Reader \<Rightarrow> int \<Rightarrow> FS \<Rightarrow> error option \<times> OsFile \<times> Reader \<times> FS" where
  "CopyN_from_tar f tr n fs =
     (let b = take (nat n) (curr tr);
          tr' = tr\<lparr>curr := drop (nat n) (curr tr)\<rparr>
      in case (if b = [] then (None, f, fs) else file_Write f b fs) of
           (Some e, f', fs') \<Rightarrow> (Some e, f', tr', fs')
         | (None, f', fs') \<Rightarrow>
             (if int (length b) < n
              then (case pending tr of
                      Truncated # rs \<Rightarrow> (Some ErrUnexpectedEOF, f', tr', fs')
                    | _ \<Rightarrow> (Some EOF, f', tr', fs'))
              else (None, f', tr', fs')))"

text \<open>
  \<^verbatim>\<open>CreateFileFromTar\<close>. The deferred \<^verbatim>\<open>f.Close()\<close> changes nothing in the model and
  its result is dropped.
\<close>

definition CreateFileFromTar :: "string \<Rightarrow> Reader \<Rightarrow> Header \<Rightarrow> FS \<Rightarrow> error option \<times> Reader \<times> FS" where
  "CreateFileFromTar destPath tr hdr fs =
     (let tmp = destPath @ ''.tmp'' in
      case OpenFile tmp (O_CREATE OR O_RDWR) (Perm (ucast (Mode hdr))) fs of
        (Inl err, fs0) \<Rightarrow> (Some err, tr, fs0)
      | (Inr f, fs0) \<Rightarrow>
          (case CopyN_from_tar f tr (Size hdr) fs0 of
             (Some err, f1, tr1, fs1) \<Rightarrow> (Some err, tr1, fs1)
           | (None, f1, tr1, fs1) \<Rightarrow>
               (case file_Sync f1 fs1 of
                  (Some err, fs2) \<Rightarrow> (Some err, tr1, fs2)
                | (None, fs2) \<Rightarrow>
                    (case file_Close f1 fs2 of
                       (Some err, fs3) \<Rightarrow> (Some err, tr1, fs3)
                     | (None, fs3) \<Rightarrow>
                         (case RenameFile tmp destPath fs3 of
                            (err, fs4) \<Rightarrow> (err, tr1, fs4))))))"

definition extractFile :: "Reader \<Rightarrow> string \<Rightarrow> FS \<Rightarrow> error option \<times> Reader \<times> FS" where
  "extractFile tr dir fs =
     (case Next tr of
        (Inl err, tr') \<Rightarrow> (Some err, tr', fs)
      | (Inr hdr, tr') \<Rightarrow>
          (let sections = strings_Split (FromSlash (Name hdr)) Separator in
           if length sections < 3
           then (Some (Errorf (''invalid archive path: '' @ Name hdr)), tr', fs)
           else
             (let relativePath = Join (drop 3 sections);
                  subDir = fst (Split relativePath)
              in if Typeflag hdr = TypeDir
                 then (case MkdirAll (Join [dir, subDir]) (Perm (ucast (Mode hdr))) fs of
                         (err, fs') \<Rightarrow> (err, tr', fs'))
                 else
                   (case (if subDir \<noteq> [] then MkdirAll (Join [dir, subDir]) 0x1ED fs
                          else (None, fs)) of
                      (Some err, fs') \<Rightarrow> (Some err, tr', fs')
                    | (None, fs') \<Rightarrow>
                        CreateFileFromTar (Join [dir, relativePath]) tr' hdr fs'))))"

subsection \<open>os.FileInfo and tar.FileInfoHeader\<close>

text \<open>What \<^verbatim>\<open>os.FileInfo\<close> answers: \<^verbatim>\<open>Name()\<close>, \<^verbatim>\<open>Size()\<close>, \<^verbatim>\<open>Mode()\<close>, \<^verbatim>\<open>ModTime()\<close>.\<close>

record FileInfo =
  fi_Name :: string
  fi_Size :: int
  fi_Mode :: FileMode
  fi_ModTime :: int

definition fi_IsDir :: "FileInfo \<Rightarrow> bool" where
  "fi_IsDir f = IsDir (fi_Mode f)"

text \<open>\<^verbatim>\<open>t.After(u)\<close> on instants.\<close>

definition After :: "int \<Rightarrow> int \<Rightarrow> bool" where
  "After t u = (u < t)"

text \<open>
  \<^verbatim>\<open>tar.FileInfoHeader(fi, link)\<close>: name, modification time and permission bits of
  the file (with the set-uid, set-gid and sticky bits as tar counts them), the type flag
  by the kind of file, the size for a regular file only. Sockets and unknown kinds are
  errors.
\<close>

definition header_mode :: "FileMode \<Rightarrow> 64 word" where
  "header_mode fm =
     ucast (Perm fm)
     OR (if fm AND ModeSetuid \<noteq> 0 then 0x800 else 0)
     OR (if fm AND ModeSetgid \<noteq> 0 then 0x400 else 0)
     OR (if fm AND ModeSticky \<noteq> 0 then 0x200 else 0)"

definition FileInfoHeader :: "FileInfo \<Rightarrow> string \<Rightarrow> error + Header" where
  "FileInfoHeader fi link =
     (let fm = fi_Mode fi;
          h = \<lparr>Typeflag = TypeReg, Name = fi_Name fi, Linkname = [], Size = 0,
               Mode = header_mode fm, ModTime = fi_ModTime fi\<rparr>
      in if IsRegular fm then Inr (h\<lparr>Typeflag := TypeReg, Size := fi_Size fi\<rparr>)
         else if fi_IsDir fi then Inr (h\<lparr>Typeflag := TypeDir, Name := Name h @ ''/''\<rparr>)
         else if fm AND ModeSymlink \<noteq> 0 then Inr (h\<lparr>Typeflag := TypeSymlink, Linkname := link\<rparr>)
         else if fm AND ModeDevice \<noteq> 0 then
           (if fm AND ModeCharDevice \<noteq> 0 then Inr (h\<lparr>Typeflag := TypeChar\<rparr>)
            else Inr (h\<lparr>Typeflag := TypeBlock\<rparr>))
         else if fm AND ModeNamedPipe \<noteq> 0 then Inr (h\<lparr>Typeflag := TypeFifo\<rparr>)
         else if fm AND ModeSocket \<noteq> 0 then Inl (Errorf ''archive/tar: sockets not supported'')
         else Inl (Errorf ''archive/tar: unknown file mode''))"

subsection \<open>archive/tar: the writer\<close>

text \<open>
  What a \<^verbatim>\<open>tar.Writer\<close> has put into its sink, in order: headers, payload bytes, and
  the footer (the two zero blocks that end an archive). Block padding is not shown.
\<close>

datatype tar_item = Hdr Header | Data "byte list" | Footer

text \<open>
  \<open>out\<close> is the sink, \<open>nb\<close> the number of payload bytes the current entry still
  lacks, \<open>werr\<close> the writer's sticky error.
\<close>

record Writer =
  out :: "tar_item list"
  nb :: int
  werr :: "error option"

definition NewWriter :: "tar_item list \<Rightarrow> Writer" where
  "NewWriter w = \<lparr>out = w, nb = 0, werr = None\<rparr>"

text \<open>
  \<^verbatim>\<open>tw.Flush()\<close> finishes the current entry (its padding); it is an error to flush
  while the entry still lacks bytes.
\<close>

definition tw_Flush :: "Writer \<Rightarrow> error option \<times> Writer" where
  "tw_Flush tw =
     (case werr tw of
        Some e \<Rightarrow> (Some e, tw)
      | None \<Rightarrow> (if 0 < nb tw then (Some (ErrMissedWriting (nb tw)), tw) else (None, tw)))"

text \<open>
  \<^verbatim>\<open>tw.WriteHeader(hdr)\<close> flushes, then writes the header; only a regular entry
  expects payload.
\<close>

definition tw_WriteHeader :: "Header \<Rightarrow> Writer \<Rightarrow> error option \<times> Writer" where
  "tw_WriteHeader hdr tw =
     (case tw_Flush tw of
        (Some e, tw') \<Rightarrow> (Some e, tw')
      | (None, tw') \<Rightarrow>
          (if Size hdr < 0 then (Some ErrHeader, tw')
           else (None, tw'\<lparr>out := out tw' @ [Hdr hdr],
                            nb := (if Typeflag hdr = TypeReg then Size hdr else 0)\<rparr>)))"

text \<open>
  \<^verbatim>\<open>tw.Write(b)\<close>: at most the bytes the entry still lacks are written; more is
  \<^verbatim>\<open>ErrWriteTooLong\<close>.
\<close>

definition tw_Write :: "byte list \<Rightarrow> Writer \<Rightarrow> error option \<times> Writer" where
  "tw_Write b tw =
     (case werr tw of
        Some e \<Rightarrow> (Some e, tw)
      | None \<Rightarrow>
          (let b' = take (nat (nb tw)) b;
               tw' = tw\<lparr>out := out tw @ [Data b'], nb := nb tw - int (length b')\<rparr>
           in if nb tw < int (length b) then (Some ErrWriteTooLong, tw') else (None, tw')))"

text \<open>
  \<^verbatim>\<open>tw.Close()\<close> flushes and writes the footer. As the library documents, it returns an
  error, and writes no footer, when the current entry is not fully written or the writer
  has failed before; a second \<^verbatim>\<open>Close\<close> does nothing.
\<close>

definition tw_Close :: "Writer \<Rightarrow> error option \<times> Writer" where
  "tw_Close tw =
     (if werr tw = Some ErrWriteAfterClose then (None, tw)
      else
        (case tw_Flush tw of
           (Some e, tw') \<Rightarrow> (Some e, tw'\<lparr>werr := Some (case werr tw of None \<Rightarrow> ErrWriteAfterClose | Some e' \<Rightarrow> e')\<rparr>)
         | (None, tw') \<Rightarrow> (None, tw'\<lparr>out := out tw' @ [Footer], werr := Some ErrWriteAfterClose\<rparr>)))"

subsection \<open>The archiver\<close>

text \<open>
  \<^verbatim>\<open>io.CopyN(tw, fr, n)\<close> from an open file into the writer: up to \<open>n\<close> bytes of the
  file are read and written; \<^verbatim>\<open>io.EOF\<close> when the file ends before \<open>n\<close> bytes came.
  Reading a directory fails.
\<close>

definition CopyN_to_tar :: "Writer \<Rightarrow> OsFile \<Rightarrow> int \<Rightarrow> FS \<Rightarrow> error option \<times> Writer" where
  "CopyN_to_tar tw fr n fs =
     (case stat fs (fname fr) of
        Some (File m d) \<Rightarrow>
          (let b = take (nat n) (drop (offset fr) d) in
           case (if b = [] then (None, tw) else tw_Write b tw) of
             (Some e, tw') \<Rightarrow> (Some e, tw')
           | (None, tw') \<Rightarrow> (if int (length b) < n then (Some EOF, tw') else (None, tw')))
      | Some (Dir m) \<Rightarrow> (if 0 < n then (Some (PathError ''read'' (fname fr) EISDIR), tw) else (None, tw))
      | None \<Rightarrow> (if 0 < n then (Some EOF, tw) else (None, tw)))"

text \<open>The type of the per-file handler \<^verbatim>\<open>writeFunc\<close>; the file system it reads is explicit.\<close>

type_synonym writeFunc = "FileInfo \<Rightarrow> string \<Rightarrow> string \<Rightarrow> FS \<Rightarrow> Writer \<Rightarrow> error option \<times> Writer"

text \<open>
  \<^verbatim>\<open>StreamRenameFile\<close>, on a host whose separator is \<open>sep\<close>. The deferred
  \<^verbatim>\<open>fr.Close()\<close> changes nothing in the model.
\<close>

definition StreamRenameFile_on :: "char \<Rightarrow> FileInfo \<Rightarrow> string \<Rightarrow> string \<Rightarrow> string \<Rightarrow> FS \<Rightarrow> Writer
                                   \<Rightarrow> error option \<times> Writer" where
  "StreamRenameFile_on sep f tarHeaderFileName relativePath fullPath fs tw =
     (case FileInfoHeader f (fi_Name f) of
        Inl err \<Rightarrow> (Some err, tw)
      | Inr h0 \<Rightarrow>
          (let h = h0\<lparr>Name := ToSlash_on sep (Join_on sep [relativePath, tarHeaderFileName])\<rparr> in
           case tw_WriteHeader h tw of
             (Some err, tw1) \<Rightarrow> (Some err, tw1)
           | (None, tw1) \<Rightarrow>
               (if \<not> IsRegular (fi_Mode f) then (None, tw1)
                else
                  (case Open fullPath fs of
                     (Inl err, fs') \<Rightarrow> (Some err, tw1)
                   | (Inr fr, fs') \<Rightarrow> CopyN_to_tar tw1 fr (Size h) fs'))))"

text \<open>\<^verbatim>\<open>StreamRenameFile\<close> of the Unix build.\<close>

definition StreamRenameFile :: "FileInfo \<Rightarrow> string \<Rightarrow> string \<Rightarrow> string \<Rightarrow> FS \<Rightarrow> Writer \<Rightarrow> error option \<times> Writer" where
  "StreamRenameFile f tarHeaderFileName relativePath fullPath fs tw =
     StreamRenameFile_on Separator f tarHeaderFileName relativePath fullPath fs tw"

definition StreamFile :: writeFunc where
  "StreamFile f shardRelativePath fullPath fs tw =
     StreamRenameFile f (fi_Name f) shardRelativePath fullPath fs tw"

definition SinceFilterTarFile :: "int \<Rightarrow> writeFunc" where
  "SinceFilterTarFile since =
     (\<lambda>f shardRelativePath fullPath fs tw.
        if After (fi_ModTime f) since then StreamFile f shardRelativePath fullPath fs tw
        else (None, tw))"

text \<open>
  \<^verbatim>\<open>filepath.Walk(dir, fn)\<close> is the external directory walk: it calls \<open>fn\<close> on what it
  visits (path, file info, error), in its order, and stops at the first error \<open>fn\<close>
  returns. The visits are an input of the model. The sentinel \<^verbatim>\<open>filepath.SkipDir\<close>, which
  no handler of this file returns, is not among the errors of the model.
\<close>

type_synonym visit = "string \<times> FileInfo \<times> error option"

fun Walk :: "visit list \<Rightarrow> (visit \<Rightarrow> Writer \<Rightarrow> error option \<times> Writer) \<Rightarrow> Writer \<Rightarrow> error option \<times> Writer" where
  "Walk [] fn tw = (None, tw)"
| "Walk (v # vs) fn tw =
     (case fn v tw of
        (Some err, tw') \<Rightarrow> (Some err, tw')
      | (None, tw') \<Rightarrow> Walk vs fn tw')"

text \<open>
  The function literal \<^verbatim>\<open>Stream\<close> passes to \<^verbatim>\<open>filepath.Walk\<close>. \<open>Rel\<close> stands for
  \<^verbatim>\<open>filepath.Rel\<close>, a parameter of the model.
\<close>

definition walkFn :: "(string \<Rightarrow> string \<Rightarrow> error + string) \<Rightarrow> string \<Rightarrow> string \<Rightarrow> writeFunc \<Rightarrow> bool \<Rightarrow> FS
                       \<Rightarrow> visit \<Rightarrow> Writer \<Rightarrow> error option \<times> Writer" where
  "walkFn Rel dir relativePath writeFunc keepTarOpen fs v tw =
     (case v of (path, f, err) \<Rightarrow>
        (case err of
           Some e \<Rightarrow> (Some e, tw)
         | None \<Rightarrow>
             (if dir = path \<and> fi_IsDir f
              then (if keepTarOpen then writeFunc f relativePath path fs tw else (None, tw))
              else
                (let subDir = fst (Split path) in
                 case Rel dir subDir of
                   Inl e \<Rightarrow> (Some e, tw)
                 | Inr subDir' \<Rightarrow> writeFunc f (Join [relativePath, subDir']) path fs tw))))"

text \<open>
  \<^verbatim>\<open>Stream\<close>. The sink \<open>w\<close> is what it holds already; \<open>walk\<close> is what
  \<^verbatim>\<open>filepath.Walk\<close> visits under \<open>dir\<close>. The deferred \<^verbatim>\<open>tw.Flush()\<close> or
  \<^verbatim>\<open>tw.Close()\<close> runs when the function returns, whatever it returns, and its own
  result is dropped.
\<close>

definition Stream :: "tar_item list \<Rightarrow> (string \<Rightarrow> string \<Rightarrow> error + string) \<Rightarrow> visit list \<Rightarrow> FS
                      \<Rightarrow> string \<Rightarrow> string \<Rightarrow> writeFunc option \<Rightarrow> bool \<Rightarrow> error option \<times> Writer" where
  "Stream w Rel walk fs dir relativePath writeFunc keepTarOpen =
     (let tw = NewWriter w;
          writeFunc' = (case writeFunc of None \<Rightarrow> StreamFile | Some fn \<Rightarrow> fn)
      in case Walk walk (walkFn Rel dir relativePath writeFunc' keepTarOpen fs) tw of
           (err, tw') \<Rightarrow> (err, snd (if keepTarOpen then tw_Flush tw' else tw_Close tw')))"

subsection \<open>Restore: the loop\<close>

text \<open>
  The \<^verbatim>\<open>for\<close> loop of \<^verbatim>\<open>Restore\<close>: \<^verbatim>\<open>io.EOF\<close> from \<^verbatim>\<open>extractFile\<close> leaves the
  loop, any other error returns it. Every round that goes on has consumed a header of
  the stream, so the loop ends: \<open>stream_left\<close> counts what is left, a record for two
  (its header and its data).
\<close>

fun stream_left :: "tar_rec list \<Rightarrow> nat" where
  "stream_left [] = 0"
| "stream_left (Rec hdr payload # rs) = 2 + stream_left rs"
| "stream_left (r # rs) = 1 + stream_left rs"

function Restore_loop :: "Reader \<Rightarrow> string \<Rightarrow> FS \<Rightarrow> error option \<times> FS" where
  "Restore_loop tr dir fs =
     (case extractFile tr dir fs of
        (Some err, tr', fs') \<Rightarrow> (if err = EOF then (None, fs') else (Some err, fs'))
      | (None, tr', fs') \<Rightarrow> Restore_loop tr' dir fs')"
  by pat_completeness auto
termination
proof (relation "measure (\<lambda>(tr, dir, fs). stream_left (pending tr))")
  show "wf (measure (\<lambda>(tr, dir, fs). stream_left (pending tr)))" by simp
next
  fix tr :: Reader and dir :: string and fs :: FS and x y tr' fs'
  assume a: "(x, y) = extractFile tr dir fs" "(tr', fs') = y" "x = None"
  then have e: "extractFile tr dir fs = (None, tr', fs')" by simp
  have copy: "pending t' = pending t" if "CopyN_from_tar f t n s = (c, f', t', s')"
    for f t n s c f' t' s'
    using that
    by (auto simp: CopyN_from_tar_def Let_def split: prod.splits option.splits if_splits list.splits
                   tar_rec.splits)
  have create: "pending t' = pending t" if "CreateFileFromTar d t h s = (c, t', s')"
    for d t h s c t' s'
    using that
    by (auto simp: CreateFileFromTar_def Let_def split: prod.splits option.splits sum.splits
             dest: copy)
  obtain r tr1 where n: "Next tr = (r, tr1)" by (cases "Next tr")
  show "((tr', dir, fs'), (tr, dir, fs)) \<in> measure (\<lambda>(tr, dir, fs). stream_left (pending tr))"
  proof (cases r)
    case (Inl err)
    with e n show ?thesis by (simp add: extractFile_def)
  next
    case (Inr hdr)
    with n have less: "stream_left (pending tr1) < stream_left (pending tr)"
      by (auto simp: Next_def split: list.splits tar_rec.splits if_splits)
    from e n Inr have "pending tr' = pending tr1"
      by (auto simp: extractFile_def Let_def split: prod.splits option.splits if_splits
               dest: create)
    with less show ?thesis by simp
  qed
qed

declare Restore_loop.simps [simp del]

definition Restore :: "tar_rec list \<Rightarrow> string \<Rightarrow> FS \<Rightarrow> error option \<times> FS" where
  "Restore r dir fs =
     (case Restore_loop (NewReader r) dir fs of
        (Some err, fs') \<Rightarrow> (Some err, fs')
      | (None, fs') \<Rightarrow> SyncDir dir fs')"

subsection \<open>Reading the sink\<close>

text \<open>The payload bytes among some items of the sink, in order.\<close>

definition payload :: "tar_item list \<Rightarrow> byte list" where
  "payload items = concat (map (\<lambda>i. case i of Data b \<Rightarrow> b | _ \<Rightarrow> []) items)"

subsection \<open>What the default handler is to write\<close>

text \<open>
  The entry of one file as the archive is to hold it: the header built from the file's
  info, named by the file's own base name below its logical directory, and for a regular
  file its bytes as they are on disk.
\<close>

definition archived_entry :: "string \<Rightarrow> FileInfo \<Rightarrow> string \<Rightarrow> FS \<Rightarrow> tar_item list" where
  "archived_entry logicalDir f fullPath fs =
     (case FileInfoHeader f (fi_Name f) of
        Inl err \<Rightarrow> []
      | Inr h \<Rightarrow>
          Hdr (h\<lparr>Name := ToSlash (Join [logicalDir, fi_Name f])\<rparr>)
          # (if IsRegular (fi_Mode f)
             then (case stat fs fullPath of
                     Some (File m d) \<Rightarrow> (if d = [] then [] else [Data d])
                   | _ \<Rightarrow> [])
             else []))"

text \<open>
  The entries of a walk: one for every visit, in the order of the walk, each below the
  logical prefix joined with its directory relative to the root; the root directory
  itself has an entry only when the archive is kept open.
\<close>

fun archived_walk :: "(string \<Rightarrow> string \<Rightarrow> error + string) \<Rightarrow> string \<Rightarrow> string \<Rightarrow> bool \<Rightarrow> FS
                      \<Rightarrow> visit list \<Rightarrow> tar_item list" where
  "archived_walk Rel dir relativePath keepTarOpen fs [] = []"
| "archived_walk Rel dir relativePath keepTarOpen fs ((path, f, err) # vs) =
     (if dir = path \<and> fi_IsDir f
      then (if keepTarOpen then archived_entry relativePath f path fs else [])
      else (case Rel dir (fst (Split path)) of
              Inl e \<Rightarrow> []
            | Inr subDir \<Rightarrow> archived_entry (Join [relativePath, subDir]) f path fs))
     @ archived_walk Rel dir relativePath keepTarOpen fs vs"

text \<open>
  A visit that can be archived: the walk reports no error for it, its directory has a
  path relative to the root, its header can be built, and a regular file is on disk
  with the size it was stat'ed with.
\<close>

fun visit_ok :: "(string \<Rightarrow> string \<Rightarrow> error + string) \<Rightarrow> string \<Rightarrow> FS \<Rightarrow> visit \<Rightarrow> bool" where
  "visit_ok Rel dir fs (path, f, err) =
     (err = None
      \<and> (if dir = path \<and> fi_IsDir f then True
         else (case Rel dir (fst (Split path)) of Inl e \<Rightarrow> False | Inr subDir \<Rightarrow> True))
      \<and> (case FileInfoHeader f (fi_Name f) of Inl e \<Rightarrow> False | Inr h \<Rightarrow> True)
      \<and> (if IsRegular (fi_Mode f)
         then (case stat fs path of
                 Some (File m d) \<Rightarrow> int (length d) = fi_Size f
               | _ \<Rightarrow> False)
         else True))"

subsection \<open>A shard directory and a destination, for the examples\<close>

definition ex_shard :: FS where
  "ex_shard = \<lparr>nodes = [''/shard/1'' \<mapsto> Dir 0x1ED, ''/shard/1/a.tsm'' \<mapsto> File 0x1A4 [1, 2, 3]],
               synced = [], dirsynced = [], faulty = {}, umask = 0x12\<rparr>"

definition ex_file :: FileInfo where
  "ex_file = \<lparr>fi_Name = ''a.tsm'', fi_Size = 3, fi_Mode = 0x1A4, fi_ModTime = 10\<rparr>"

definition ex_rootdir :: FileInfo where
  "ex_rootdir = \<lparr>fi_Name = ''1'', fi_Size = 4096, fi_Mode = ModeDir OR 0x1ED, fi_ModTime = 5\<rparr>"

text \<open>A shard directory that holds nothing.\<close>

definition ex_empty :: FS where
  "ex_empty = \<lparr>nodes = [''/shard/1'' \<mapsto> Dir 0x1ED], synced = [], dirsynced = [], faulty = {},
               umask = 0x12\<rparr>"

definition ex_data :: FS where
  "ex_data = \<lparr>nodes = [''/data'' \<mapsto> Dir 0x1ED], synced = [], dirsynced = [], faulty = {},
              umask = 0x12\<rparr>"

text \<open>
  A hard-link entry whose header declares the size of the file it links to, as some
  archivers write it: the reader gives such an entry no payload.
\<close>

definition ex_link :: Header where
  "ex_link = \<lparr>Typeflag = TypeLink, Name = ''db/rp/1/a.lnk'', Linkname = ''db/rp/1/b.tsm'', Size = 2,
              Mode = 0x1A4, ModTime = 0\<rparr>"

definition ex_hdr :: "string \<Rightarrow> Header" where
  "ex_hdr name = \<lparr>Typeflag = TypeReg, Name = name, Linkname = [], Size = 2, Mode = 0x1A4, ModTime = 0\<rparr>"

text \<open>
  \<^verbatim>\<open>filepath.Rel\<close> on the example walks: what they visit lies directly in the root
  directory, and the directory of such a path relative to the root is \<^verbatim>\<open>.\<close>
\<close>

definition ex_Rel :: "string \<Rightarrow> string \<Rightarrow> error + string" where
  "ex_Rel basepath targpath = Inr ''.''"

text \<open>
  What \<^verbatim>\<open>filepath.Walk\<close> visits in the example shard: the root, then its one file; in
  the second walk the file was stat'ed with 5 bytes and holds 3 when it is read.
\<close>

definition ex_walk :: "visit list" where
  "ex_walk = [(''/shard/1'', ex_rootdir, None), (''/shard/1/a.tsm'', ex_file, None)]"

definition ex_walk_shrunk :: "visit list" where
  "ex_walk_shrunk = [(''/shard/1'', ex_rootdir, None), (''/shard/1/a.tsm'', ex_file\<lparr>fi_Size := 5\<rparr>, None)]"

section \<open>Properties\<close>

subsection \<open>Slash-separated names on either host\<close>

lemma ToSlash_on_Nil [simp]: "ToSlash_on sep [] = []"
  by (simp add: ToSlash_on_def)

lemma ToSlash_on_Cons:
  "ToSlash_on sep (x # xs) = (if IsPathSeparator sep x then CHR ''/'' else x) # ToSlash_on sep xs"
proof (cases "sep = CHR ''/''")
  case True
  then show ?thesis by (simp add: ToSlash_on_def IsPathSeparator_def)
next
  case False
  then show ?thesis by (simp add: ToSlash_on_def IsPathSeparator_def)
qed

lemma ToSlash_on_eq_Nil [simp]: "ToSlash_on sep p = [] \<longleftrightarrow> p = []"
  by (simp add: ToSlash_on_def)

lemma ToSlash_on_append: "ToSlash_on sep (p @ q) = ToSlash_on sep p @ ToSlash_on sep q"
  by (simp add: ToSlash_on_def)

lemma ToSlash_on_no_separator: "sep \<noteq> CHR ''/'' \<Longrightarrow> sep \<notin> set (ToSlash_on sep p)"
  by (auto simp: ToSlash_on_def)

lemma path_elems_not_Nil [simp]: "path_elems sep p \<noteq> []"
  by (induction p) (auto split: list.splits)

lemma path_elems_ToSlash_on:
  "path_elems (CHR ''/'') (ToSlash_on sep p) = path_elems sep p"
proof (induction p)
  case Nil
  show ?case by simp
next
  case (Cons x xs)
  then show ?case
    by (auto simp: ToSlash_on_Cons IsPathSeparator_def split: list.splits)
qed

lemma path_elems_no_separator_all:
  "\<forall>e \<in> set (path_elems sep p). \<forall>c \<in> set e. \<not> IsPathSeparator sep c"
proof (induction p)
  case Nil
  show ?case by simp
next
  case (Cons x xs)
  obtain w ws where w: "path_elems sep xs = w # ws"
    by (cases "path_elems sep xs") auto
  with Cons show ?case by auto
qed

lemma path_elems_no_separator:
  "e \<in> set (path_elems sep p) \<Longrightarrow> c \<in> set e \<Longrightarrow> \<not> IsPathSeparator sep c"
  using path_elems_no_separator_all by blast

lemma clean_elems_subset:
  "e \<in> set (clean_elems rooted acc es) \<Longrightarrow> e \<in> set acc \<or> e \<in> set es \<or> e = ''..''"
  by (induction rooted acc es rule: clean_elems.induct) (auto split: if_splits list.splits)

lemma ToSlash_on_strings_Join:
  "ToSlash_on sep (strings_Join es sep) = strings_Join (map (ToSlash_on sep) es) (CHR ''/'')"
  by (induction es sep rule: strings_Join.induct)
     (auto simp: ToSlash_on_append ToSlash_on_Cons IsPathSeparator_def)

lemma ToSlash_on_id: "\<forall>c \<in> set e. \<not> IsPathSeparator sep c \<Longrightarrow> ToSlash_on sep e = e"
  by (induction e) (simp_all add: ToSlash_on_Cons)

lemma strings_Join_eq_Nil: "strings_Join es c = [] \<longleftrightarrow> es = [] \<or> es = [[]]"
  by (induction es c rule: strings_Join.induct) auto

lemma Clean_on_ToSlash_on:
  assumes "sep = CHR ''/'' \<or> sep = CHR 0x5C"
  shows "ToSlash_on sep (Clean_on sep p) = Clean_on (CHR ''/'') (ToSlash_on sep p)"
proof (cases "p = []")
  case True
  with assms show ?thesis by (auto simp: Clean_on_def ToSlash_on_def)
next
  case False
  define rooted where "rooted = IsPathSeparator sep (hd p)"
  define els where "els = clean_elems rooted [] (path_elems sep p)"
  from False have r: "IsPathSeparator (CHR ''/'') (hd (ToSlash_on sep p)) = rooted"
    by (cases p) (auto simp: ToSlash_on_Cons rooted_def IsPathSeparator_def)
  have dots: "\<not> IsPathSeparator sep (CHR ''.'')"
    using assms by (auto simp: IsPathSeparator_def)
  have "\<forall>e \<in> set els. \<forall>c \<in> set e. \<not> IsPathSeparator sep c"
  proof (intro ballI)
    fix e c assume e: "e \<in> set els" and c: "c \<in> set e"
    from clean_elems_subset [OF e [unfolded els_def]]
    consider "e \<in> set (path_elems sep p)" | "e = ''..''" by auto
    then show "\<not> IsPathSeparator sep c"
    proof cases
      case 1
      from path_elems_no_separator [OF 1 c] show ?thesis .
    next
      case 2
      with c dots show ?thesis by simp
    qed
  qed
  then have "map (ToSlash_on sep) els = els"
    by (intro map_idI ToSlash_on_id) auto
  then have j: "ToSlash_on sep (strings_Join els sep) = strings_Join els (CHR ''/'')"
    by (simp add: ToSlash_on_strings_Join)
  have dot: "ToSlash_on sep ''.'' = ''.''"
    using dots by (simp add: ToSlash_on_Cons)
  have lhs: "Clean_on sep p
      = (if rooted then sep # strings_Join els sep
         else if strings_Join els sep = [] then ''.'' else strings_Join els sep)"
    using False by (simp add: Clean_on_def Let_def rooted_def els_def)
  have rhs: "Clean_on (CHR ''/'') (ToSlash_on sep p)
      = (if rooted then CHR ''/'' # strings_Join els (CHR ''/'')
         else if strings_Join els (CHR ''/'') = [] then ''.'' else strings_Join els (CHR ''/''))"
    using False r by (simp add: Clean_on_def Let_def path_elems_ToSlash_on els_def)
  have sl: "ToSlash_on sep (sep # q) = CHR ''/'' # ToSlash_on sep q" for q
    by (simp add: ToSlash_on_Cons IsPathSeparator_def)
  show ?thesis
    unfolding lhs rhs using j dot by (simp add: sl strings_Join_eq_Nil)
qed

lemma Join_on_ToSlash_on:
  assumes "sep = CHR ''/'' \<or> sep = CHR 0x5C"
  shows "ToSlash_on sep (Join_on sep es) = Join_on (CHR ''/'') (map (ToSlash_on sep) es)"
proof -
  have d: "dropWhile (\<lambda>e. e = []) (map (ToSlash_on sep) es) = map (ToSlash_on sep) (dropWhile (\<lambda>e. e = []) es)"
    by (induction es) auto
  show ?thesis
  proof (cases "dropWhile (\<lambda>e. e = []) es")
    case Nil
    show ?thesis unfolding Join_on_def d Nil by simp
  next
    case (Cons a as)
    show ?thesis
      unfolding Join_on_def d Cons
      by (simp only: list.case list.map Clean_on_ToSlash_on [OF assms] ToSlash_on_strings_Join)
  qed
qed

subsection \<open>The file writer and the filter\<close>

lemma IsDir_not_IsRegular: "IsDir m \<Longrightarrow> \<not> IsRegular m"
proof
  assume d: "IsDir m" and r: "IsRegular m"
  have "m AND ModeDir = (m AND ModeType) AND ModeDir"
    unfolding ModeType_def by (auto simp: bit_eq_iff bit_and_iff bit_or_iff)
  with r have "m AND ModeDir = 0" by (simp add: IsRegular_def)
  with d show False by (simp add: IsDir_def)
qed

lemma Open_eq:
  "Open name fs =
     (case stat fs name of
        None \<Rightarrow> (Inl (PathError ''open'' name ENOENT), fs)
      | Some n \<Rightarrow> (Inr \<lparr>fname = name, offset = 0\<rparr>, fs))"
  by (simp add: Open_def OpenFile_def O_RDONLY_def split: option.splits node.splits)

lemma FileInfoHeader_regular:
  "IsRegular (fi_Mode f) \<Longrightarrow>
   FileInfoHeader f link =
     Inr \<lparr>Typeflag = TypeReg, Name = fi_Name f, Linkname = [], Size = fi_Size f,
          Mode = header_mode (fi_Mode f), ModTime = fi_ModTime f\<rparr>"
  by (simp add: FileInfoHeader_def Let_def)

lemma FileInfoHeader_not_regular:
  "\<not> IsRegular (fi_Mode f) \<Longrightarrow> FileInfoHeader f link = Inr h \<Longrightarrow> Typeflag h \<noteq> TypeReg \<and> Size h = 0"
  by (auto simp: FileInfoHeader_def Let_def TypeReg_def TypeDir_def TypeSymlink_def TypeChar_def
                 TypeBlock_def TypeFifo_def split: if_splits)

lemma FileInfoHeader_dir:
  "fi_IsDir f \<Longrightarrow>
   FileInfoHeader f link =
     Inr \<lparr>Typeflag = TypeDir, Name = fi_Name f @ ''/'', Linkname = [], Size = 0,
          Mode = header_mode (fi_Mode f), ModTime = fi_ModTime f\<rparr>"
  by (simp add: FileInfoHeader_def Let_def fi_IsDir_def IsDir_not_IsRegular)

lemma tw_Flush_eq:
  "tw_Flush tw =
     (if werr tw = None then (if 0 < nb tw then (Some (ErrMissedWriting (nb tw)), tw) else (None, tw))
      else (werr tw, tw))"
  by (cases "werr tw") (simp_all add: tw_Flush_def)

lemma tw_Write_eq:
  "tw_Write b tw =
     (if werr tw = None
      then (if nb tw < int (length b) then Some ErrWriteTooLong else None,
            tw\<lparr>out := out tw @ [Data (take (nat (nb tw)) b)],
               nb := nb tw - int (length (take (nat (nb tw)) b))\<rparr>)
      else (werr tw, tw))"
  by (cases "werr tw") (simp_all add: tw_Write_def Let_def)

lemma tw_WriteHeader_cases:
  "tw_WriteHeader h tw = (e, tw') \<Longrightarrow>
     (e \<noteq> None \<and> tw' = tw) \<or>
     (e = None \<and> tw' = tw\<lparr>out := out tw @ [Hdr h], nb := (if Typeflag h = TypeReg then Size h else 0)\<rparr>
        \<and> werr tw = None \<and> 0 \<le> Size h)"
  by (auto simp: tw_WriteHeader_def tw_Flush_eq split: if_splits) metis+

lemma tw_Write_cases:
  "tw_Write b tw = (e, tw') \<Longrightarrow>
     (e \<noteq> None \<and> tw' = tw \<and> werr tw \<noteq> None) \<or>
     (werr tw = None \<and> out tw' = out tw @ [Data (take (nat (nb tw)) b)]
        \<and> (e = None \<longleftrightarrow> int (length b) \<le> nb tw))"
  by (auto simp: tw_Write_eq split: if_splits)

lemma CopyN_to_tar_cases:
  "CopyN_to_tar tw fr n fs = (e, tw') \<Longrightarrow> nb tw = n \<Longrightarrow> 0 \<le> n \<Longrightarrow>
     (\<exists>items. out tw' = out tw @ items \<and> (\<forall>h. Hdr h \<notin> set items) \<and> Footer \<notin> set items \<and>
        (e = None \<longrightarrow> int (length (payload items)) = n) \<and>
        (\<forall>m d. e = None \<longrightarrow> stat fs (fname fr) = Some (File m d) \<longrightarrow> 
             payload items = take (nat n) (drop (offset fr) d)))"
  apply (auto simp: CopyN_to_tar_def Let_def payload_def split: option.splits node.splits if_splits prod.splits
         dest!: tw_Write_cases)
  done

lemma only_Data:
  "(\<forall>h. Hdr h \<notin> set items) \<Longrightarrow> Footer \<notin> set items \<Longrightarrow> \<forall>i \<in> set items. \<exists>b. i = Data b"
proof
  fix i assume a: "\<forall>h. Hdr h \<notin> set items" "Footer \<notin> set items" "i \<in> set items"
  then show "\<exists>b. i = Data b" by (cases i) auto
qed

lemma StreamRenameFile_on_shape:
  assumes "StreamRenameFile_on sep f tarHeaderFileName relativePath fullPath fs tw = (e, tw')"
  shows "(out tw' = out tw \<and> e \<noteq> None
          \<and> (\<forall>h0. FileInfoHeader f (fi_Name f) = Inr h0 \<longrightarrow>
                 fst (tw_WriteHeader (h0\<lparr>Name := ToSlash_on sep (Join_on sep [relativePath, tarHeaderFileName])\<rparr>) tw)
                   \<noteq> None))
       \<or> (\<exists>h0 rest. FileInfoHeader f (fi_Name f) = Inr h0
             \<and> out tw' = out tw @ Hdr (h0\<lparr>Name := ToSlash_on sep (Join_on sep [relativePath, tarHeaderFileName])\<rparr>) # rest
             \<and> (\<forall>i \<in> set rest. \<exists>b. i = Data b)
             \<and> (\<not> IsRegular (fi_Mode f) \<longrightarrow> rest = [] \<and> e = None)
             \<and> (IsRegular (fi_Mode f) \<longrightarrow> e = None \<longrightarrow>
                   int (length (payload rest)) = fi_Size f
                 \<and> (\<forall>m d. stat fs fullPath = Some (File m d) \<longrightarrow> payload rest = take (nat (fi_Size f)) d)))"
proof (cases "FileInfoHeader f (fi_Name f)")
  case (Inl err)
  with assms show ?thesis by (auto simp: StreamRenameFile_on_def)
next
  case (Inr h0)
  define h where "h = h0\<lparr>Name := ToSlash_on sep (Join_on sep [relativePath, tarHeaderFileName])\<rparr>"
  obtain e1 tw1 where wh: "tw_WriteHeader h tw = (e1, tw1)" by (cases "tw_WriteHeader h tw")
  show ?thesis
  proof (cases e1)
    case (Some err)
    with assms Inr wh tw_WriteHeader_cases [OF wh] show ?thesis
      by (auto simp: StreamRenameFile_on_def Let_def h_def)
  next
    case None
    with tw_WriteHeader_cases [OF wh]
    have tw1: "out tw1 = out tw @ [Hdr h]" "nb tw1 = (if Typeflag h = TypeReg then Size h else 0)" "0 \<le> Size h"
      by auto
    show ?thesis
    proof (cases "IsRegular (fi_Mode f)")
      case False
      with assms Inr wh None tw1 show ?thesis
        by (auto simp: StreamRenameFile_on_def Let_def h_def)
    next
      case True
      with Inr have h0: "Typeflag h0 = TypeReg" "Size h0 = fi_Size f"
        by (auto simp: FileInfoHeader_regular)
      then have hh: "Typeflag h = TypeReg" "Size h = fi_Size f" by (simp_all add: h_def)
      show ?thesis
      proof (cases "stat fs fullPath")
        case None
        with assms Inr wh \<open>e1 = None\<close> True tw1 show ?thesis
          by (auto simp: StreamRenameFile_on_def Let_def h_def [symmetric] Open_eq)
      next
        case (Some n)
        with assms Inr wh \<open>e1 = None\<close> True
        have c: "CopyN_to_tar tw1 \<lparr>fname = fullPath, offset = 0\<rparr> (Size h) fs = (e, tw')"
          by (auto simp: StreamRenameFile_on_def Let_def h_def [symmetric] Open_eq)
        from CopyN_to_tar_cases [OF c] tw1 hh
        obtain items where it: "out tw' = out tw1 @ items" "\<forall>h. Hdr h \<notin> set items" "Footer \<notin> set items"
           "e = None \<longrightarrow> int (length (payload items)) = fi_Size f"
           "\<forall>m d. e = None \<longrightarrow> stat fs fullPath = Some (File m d) \<longrightarrow> payload items = take (nat (fi_Size f)) d"
          by auto
        from only_Data [OF it(2,3)] it tw1 Inr True show ?thesis
          by (auto simp: h_def)
      qed
    qed
  qed
qed

lemma StreamRenameFile_shape:
  assumes "StreamRenameFile f tarHeaderFileName relativePath fullPath fs tw = (e, tw')"
  shows "(out tw' = out tw \<and> e \<noteq> None)
       \<or> (\<exists>h0 rest. FileInfoHeader f (fi_Name f) = Inr h0
             \<and> out tw' = out tw @ Hdr (h0\<lparr>Name := ToSlash (Join [relativePath, tarHeaderFileName])\<rparr>) # rest
             \<and> (\<forall>i \<in> set rest. \<exists>b. i = Data b)
             \<and> (\<not> IsRegular (fi_Mode f) \<longrightarrow> rest = [] \<and> e = None)
             \<and> (IsRegular (fi_Mode f) \<longrightarrow> e = None \<longrightarrow>
                   int (length (payload rest)) = fi_Size f
                 \<and> (\<forall>m d. stat fs fullPath = Some (File m d) \<longrightarrow> payload rest = take (nat (fi_Size f)) d)))"
  using StreamRenameFile_on_shape [OF assms [unfolded StreamRenameFile_def]]
  unfolding ToSlash_def Join_def by blast

lemmas eval_defs =
  StreamRenameFile_def StreamRenameFile_on_def StreamFile_def SinceFilterTarFile_def After_def
  FileInfoHeader_def header_mode_def
  tw_WriteHeader_def tw_Flush_def tw_Write_def tw_Close_def NewWriter_def CopyN_to_tar_def
  Open_def OpenFile_def stat_def O_RDONLY_def O_RDWR_def O_CREATE_def O_TRUNC_def
  ToSlash_def ToSlash_on_def FromSlash_def FromSlash_on_def Join_def Join_on_def Clean_def Clean_on_def
  IsPathSeparator_def Split_def Separator_def
  IsRegular_def IsDir_def fi_IsDir_def Perm_def ModePerm_def ModeType_def ModeDir_def ModeSymlink_def
  ModeDevice_def ModeNamedPipe_def ModeSocket_def ModeCharDevice_def ModeIrregular_def
  ModeSetuid_def ModeSetgid_def ModeSticky_def
  TypeReg_def TypeDir_def TypeSymlink_def TypeChar_def TypeBlock_def TypeFifo_def
  ex_shard_def ex_file_def ex_rootdir_def payload_def Let_def

text \<open>
  What \<^verbatim>\<open>StreamRenameFile\<close> does to a writer in order (no error, no entry left short),
  in full: for an entry that is not a regular file, and for a regular file that is there
  to be read.
\<close>

lemma StreamRenameFile_on_not_regular:
  assumes "\<not> IsRegular (fi_Mode f)" "FileInfoHeader f (fi_Name f) = Inr h0"
    and "werr tw = None" "nb tw \<le> 0"
  shows "StreamRenameFile_on sep f tarHeaderFileName relativePath fullPath fs tw
           = (None, tw\<lparr>out := out tw @ [Hdr (h0\<lparr>Name := ToSlash_on sep (Join_on sep [relativePath, tarHeaderFileName])\<rparr>)],
                       nb := 0\<rparr>)"
  using assms FileInfoHeader_not_regular [OF assms(1,2)]
  by (simp add: StreamRenameFile_on_def tw_WriteHeader_def tw_Flush_eq)

lemma CopyN_to_tar_file:
  assumes "stat fs (fname fr) = Some (File m d)" "offset fr = 0" "werr tw = None" "nb tw = n" "0 \<le> n"
  shows "CopyN_to_tar tw fr n fs
           = (if int (length d) < n then Some EOF else None,
              if take (nat n) d = [] then tw
              else tw\<lparr>out := out tw @ [Data (take (nat n) d)],
                      nb := n - int (length (take (nat n) d))\<rparr>)"
proof -
  define b where "b = take (nat n) d"
  have short: "int (length b) < n \<longleftrightarrow> int (length d) < n"
    using assms(5) by (auto simp: b_def min_def)
  have fits: "\<not> n < int (length b)" "take (nat n) b = b"
    using assms(5) by (simp_all add: b_def)
  show ?thesis
  proof (cases "b = []")
    case True
    with assms short show ?thesis
      by (simp add: CopyN_to_tar_def Let_def b_def [symmetric] del: take_eq_Nil)
  next
    case False
    with assms short fits show ?thesis
      by (simp add: CopyN_to_tar_def Let_def tw_Write_eq b_def [symmetric] del: take_eq_Nil)
  qed
qed

lemma StreamRenameFile_on_regular:
  assumes "IsRegular (fi_Mode f)" "werr tw = None" "nb tw \<le> 0" "0 \<le> fi_Size f"
    and "stat fs fullPath = Some (File m d)"
  shows "StreamRenameFile_on sep f tarHeaderFileName relativePath fullPath fs tw
           = (if int (length d) < fi_Size f then Some EOF else None,
              tw\<lparr>out := out tw
                      @ Hdr \<lparr>Typeflag = TypeReg,
                              Name = ToSlash_on sep (Join_on sep [relativePath, tarHeaderFileName]),
                              Linkname = [], Size = fi_Size f, Mode = header_mode (fi_Mode f),
                              ModTime = fi_ModTime f\<rparr>
                      # (if take (nat (fi_Size f)) d = [] then [] else [Data (take (nat (fi_Size f)) d)]),
                  nb := fi_Size f - int (length (take (nat (fi_Size f)) d))\<rparr>)"
proof -
  define H where "H = \<lparr>Typeflag = TypeReg,
                         Name = ToSlash_on sep (Join_on sep [relativePath, tarHeaderFileName]),
                         Linkname = [], Size = fi_Size f, Mode = header_mode (fi_Mode f),
                         ModTime = fi_ModTime f\<rparr>"
  define tw1 where "tw1 = tw\<lparr>out := out tw @ [Hdr H], nb := fi_Size f\<rparr>"
  have wh: "tw_WriteHeader H tw = (None, tw1)"
    using assms(2,3,4) by (simp add: tw_WriteHeader_def tw_Flush_eq H_def tw1_def)
  have cp: "CopyN_to_tar tw1 \<lparr>fname = fullPath, offset = 0\<rparr> (fi_Size f) fs
           = (if int (length d) < fi_Size f then Some EOF else None,
              if take (nat (fi_Size f)) d = [] then tw1
              else tw1\<lparr>out := out tw1 @ [Data (take (nat (fi_Size f)) d)],
                      nb := fi_Size f - int (length (take (nat (fi_Size f)) d))\<rparr>)"
    by (rule CopyN_to_tar_file [where m = m]) (use assms in \<open>simp_all add: tw1_def\<close>)
  have run: "StreamRenameFile_on sep f tarHeaderFileName relativePath fullPath fs tw
           = CopyN_to_tar tw1 \<lparr>fname = fullPath, offset = 0\<rparr> (fi_Size f) fs"
    using assms(1,5) wh
    by (simp add: StreamRenameFile_on_def FileInfoHeader_regular Open_eq H_def [symmetric])
       (simp add: H_def)
  show ?thesis
    unfolding run cp H_def [symmetric]
    by (cases "take (nat (fi_Size f)) d = []") (simp_all add: tw1_def del: take_eq_Nil)
qed

text \<open>
  C7. On a host of either convention (separator slash or backslash), the name
  \<^verbatim>\<open>StreamRenameFile\<close> gives the entry, \<^verbatim>\<open>ToSlash(Join(relativePath, tarHeaderFileName))\<close>,
  is the slash-separated join of the logical directory and the (possibly overridden) base
  name, whatever the separator of the host, and holds no backslash put there by the
  host. Whatever a call adds to the archive is one header of that name, followed by
  payload bytes only. The header is written whenever it can be built and the writer is
  in order. For an entry that is not a regular file the call then succeeds and the
  header is all it writes: no payload.
\<close>

theorem StreamRenameFile_entry_name:
  assumes "sep = CHR ''/'' \<or> sep = CHR 0x5C"
    and "StreamRenameFile_on sep f tarHeaderFileName relativePath fullPath fs tw = (e, tw')"
  shows "ToSlash_on sep (Join_on sep [relativePath, tarHeaderFileName])
           = Join_on (CHR ''/'') [ToSlash_on sep relativePath, ToSlash_on sep tarHeaderFileName]
       \<and> (sep = CHR ''/'' \<or> sep \<notin> set (ToSlash_on sep (Join_on sep [relativePath, tarHeaderFileName])))
       \<and> ((out tw' = out tw \<and> e \<noteq> None)
          \<or> (\<exists>h rest. out tw' = out tw @ Hdr h # rest
                \<and> Name h = ToSlash_on sep (Join_on sep [relativePath, tarHeaderFileName])
                \<and> (\<forall>i \<in> set rest. \<exists>b. i = Data b)
                \<and> (\<not> IsRegular (fi_Mode f) \<longrightarrow> rest = [] \<and> e = None)))
       \<and> (\<forall>h0. FileInfoHeader f (fi_Name f) = Inr h0 \<longrightarrow> werr tw = None \<longrightarrow> nb tw \<le> 0 \<longrightarrow> 0 \<le> Size h0 \<longrightarrow>
             (\<exists>rest. out tw' = out tw
                        @ Hdr (h0\<lparr>Name := ToSlash_on sep (Join_on sep [relativePath, tarHeaderFileName])\<rparr>) # rest))
       \<and> (\<forall>h0. \<not> IsRegular (fi_Mode f) \<longrightarrow> FileInfoHeader f (fi_Name f) = Inr h0 \<longrightarrow>
               werr tw = None \<longrightarrow> nb tw \<le> 0 \<longrightarrow>
             e = None
             \<and> tw' = tw\<lparr>out := out tw
                             @ [Hdr (h0\<lparr>Name := ToSlash_on sep (Join_on sep [relativePath, tarHeaderFileName])\<rparr>)],
                         nb := 0\<rparr>)"
proof (intro conjI allI impI)
  show "ToSlash_on sep (Join_on sep [relativePath, tarHeaderFileName])
           = Join_on (CHR ''/'') [ToSlash_on sep relativePath, ToSlash_on sep tarHeaderFileName]"
    using Join_on_ToSlash_on [OF assms(1), of "[relativePath, tarHeaderFileName]"] by simp
  show "sep = CHR ''/'' \<or> sep \<notin> set (ToSlash_on sep (Join_on sep [relativePath, tarHeaderFileName]))"
    using ToSlash_on_no_separator [of sep] by blast
  show "(out tw' = out tw \<and> e \<noteq> None)
          \<or> (\<exists>h rest. out tw' = out tw @ Hdr h # rest
                \<and> Name h = ToSlash_on sep (Join_on sep [relativePath, tarHeaderFileName])
                \<and> (\<forall>i \<in> set rest. \<exists>b. i = Data b)
                \<and> (\<not> IsRegular (fi_Mode f) \<longrightarrow> rest = [] \<and> e = None))"
    using StreamRenameFile_on_shape [OF assms(2)] by fastforce
next
  fix h0
  assume h: "FileInfoHeader f (fi_Name f) = Inr h0" and w: "werr tw = None" "nb tw \<le> 0" "0 \<le> Size h0"
  then have "fst (tw_WriteHeader (h0\<lparr>Name := ToSlash_on sep (Join_on sep [relativePath, tarHeaderFileName])\<rparr>) tw) = None"
    by (simp add: tw_WriteHeader_def tw_Flush_eq)
  with StreamRenameFile_on_shape [OF assms(2)] h
  show "\<exists>rest. out tw' = out tw
                  @ Hdr (h0\<lparr>Name := ToSlash_on sep (Join_on sep [relativePath, tarHeaderFileName])\<rparr>) # rest"
    by auto
next
  fix h0
  assume "\<not> IsRegular (fi_Mode f)" "FileInfoHeader f (fi_Name f) = Inr h0" "werr tw = None" "nb tw \<le> 0"
  from StreamRenameFile_on_not_regular [OF this, of sep tarHeaderFileName relativePath fullPath fs] assms(2)
  show "e = None" 
    and "tw' = tw\<lparr>out := out tw
                       @ [Hdr (h0\<lparr>Name := ToSlash_on sep (Join_on sep [relativePath, tarHeaderFileName])\<rparr>)],
                   nb := 0\<rparr>"
    by simp_all
qed

lemma StreamRenameFile_unfold:
  "StreamRenameFile f tarHeaderFileName relativePath fullPath fs tw =
     (case FileInfoHeader f (fi_Name f) of
        Inl err \<Rightarrow> (Some err, tw)
      | Inr h0 \<Rightarrow>
          (let h = h0\<lparr>Name := ToSlash (Join [relativePath, tarHeaderFileName])\<rparr> in
           case tw_WriteHeader h tw of
             (Some err, tw1) \<Rightarrow> (Some err, tw1)
           | (None, tw1) \<Rightarrow>
               (if \<not> IsRegular (fi_Mode f) then (None, tw1)
                else
                  (case Open fullPath fs of
                     (Inl err, fs') \<Rightarrow> (Some err, tw1)
                   | (Inr fr, fs') \<Rightarrow> CopyN_to_tar tw1 fr (Size h) fs'))))"
  unfolding StreamRenameFile_def StreamRenameFile_on_def ToSlash_def Join_def ..

theorem StreamRenameFile_entry_name_witness:
  "StreamRenameFile_on (CHR 0x5C) ex_rootdir ''index'' ''db/rp/1'' ''/shard/1/index'' ex_shard (NewWriter [])
     = (None, \<lparr>out = [Hdr \<lparr>Typeflag = TypeDir, Name = ''db/rp/1/index'', Linkname = [], Size = 0,
                          Mode = 0x1ED, ModTime = 5\<rparr>], nb = 0, werr = None\<rparr>)
   \<and> Join_on (CHR 0x5C) [''db/rp/1'', ''index'']
       = [CHR ''d'', CHR ''b'', CHR 0x5C, CHR ''r'', CHR ''p'', CHR 0x5C, CHR ''1'', CHR 0x5C,
          CHR ''i'', CHR ''n'', CHR ''d'', CHR ''e'', CHR ''x'']
   \<and> ToSlash_on (CHR 0x5C) (Join_on (CHR 0x5C) [''db/rp/1'', ''index'']) = ''db/rp/1/index''
   \<and> \<not> IsRegular (fi_Mode ex_rootdir)"
proof -
  have h: "StreamRenameFile_on (CHR 0x5C) ex_rootdir ''index'' ''db/rp/1'' ''/shard/1/index'' ex_shard (NewWriter [])
     = (None, \<lparr>out = [Hdr \<lparr>Typeflag = TypeDir, Name = ''db/rp/1/index'', Linkname = [], Size = 0,
                          Mode = 0x1ED, ModTime = 5\<rparr>], nb = 0, werr = None\<rparr>)"
    by (simp add: eval_defs)
  have j: "Join_on (CHR 0x5C) [''db/rp/1'', ''index'']
       = [CHR ''d'', CHR ''b'', CHR 0x5C, CHR ''r'', CHR ''p'', CHR 0x5C, CHR ''1'', CHR 0x5C,
          CHR ''i'', CHR ''n'', CHR ''d'', CHR ''e'', CHR ''x'']"
    by (simp add: eval_defs)
  have r: "\<not> IsRegular (fi_Mode ex_rootdir)" by (simp add: eval_defs)
  have host: "CHR 0x5C = CHR ''/'' \<or> CHR 0x5C = CHR 0x5C" by simp
  from StreamRenameFile_entry_name [OF host h] j r h show ?thesis
    by (simp add: ToSlash_on_def)
qed

text \<open>
  C6. For a regular file, a successful \<^verbatim>\<open>StreamRenameFile\<close> has written a header whose
  size is the declared size and a payload of exactly that many bytes, the first bytes of
  the file. On a writer in order, with the file there to be read, the call is determined
  in full: it writes the header with the declared size and then the first bytes of the
  file up to that size, in one piece, and it succeeds exactly when the file holds the
  declared number of bytes or more; when the file holds fewer (it shrank after it was
  stat'ed) the call returns \<^verbatim>\<open>io.EOF\<close>, with the header and the bytes that were there
  already in the sink and the writer still lacking the rest. On any writer a file
  shorter than declared makes the call fail.
\<close>

theorem StreamRenameFile_copies_declared_size:
  assumes "IsRegular (fi_Mode f)"
  shows "(StreamRenameFile f tarHeaderFileName relativePath fullPath fs tw = (None, tw') \<longrightarrow>
            (\<exists>h rest. out tw' = out tw @ Hdr h # rest
               \<and> Size h = fi_Size f
               \<and> int (length (payload rest)) = fi_Size f
               \<and> (\<forall>m d. stat fs fullPath = Some (File m d) \<longrightarrow> payload rest = take (nat (fi_Size f)) d)))
       \<and> (\<forall>m d. stat fs fullPath = Some (File m d) \<longrightarrow> werr tw = None \<longrightarrow> nb tw \<le> 0 \<longrightarrow> 0 \<le> fi_Size f \<longrightarrow>
            StreamRenameFile f tarHeaderFileName relativePath fullPath fs tw
              = (if int (length d) < fi_Size f then Some EOF else None,
                 tw\<lparr>out := out tw
                         @ Hdr \<lparr>Typeflag = TypeReg,
                                 Name = ToSlash (Join [relativePath, tarHeaderFileName]),
                                 Linkname = [], Size = fi_Size f, Mode = header_mode (fi_Mode f),
                                 ModTime = fi_ModTime f\<rparr>
                         # (if take (nat (fi_Size f)) d = [] then []
                            else [Data (take (nat (fi_Size f)) d)]),
                     nb := fi_Size f - int (length (take (nat (fi_Size f)) d))\<rparr>))
       \<and> (\<forall>m d. stat fs fullPath = Some (File m d) \<longrightarrow> int (length d) < fi_Size f \<longrightarrow>
            fst (StreamRenameFile f tarHeaderFileName relativePath fullPath fs tw) \<noteq> None)"
proof (intro conjI impI allI)
  assume a: "StreamRenameFile f tarHeaderFileName relativePath fullPath fs tw = (None, tw')"
  from StreamRenameFile_shape [OF a] assms
  obtain h0 rest where s: "FileInfoHeader f (fi_Name f) = Inr h0"
     "out tw' = out tw @ Hdr (h0\<lparr>Name := ToSlash (Join [relativePath, tarHeaderFileName])\<rparr>) # rest"
     "int (length (payload rest)) = fi_Size f"
     "\<forall>m d. stat fs fullPath = Some (File m d) \<longrightarrow> payload rest = take (nat (fi_Size f)) d"
    by auto
  from s(1) assms have "Size h0 = fi_Size f" by (auto simp: FileInfoHeader_regular)
  with s show "\<exists>h rest. out tw' = out tw @ Hdr h # rest
               \<and> Size h = fi_Size f
               \<and> int (length (payload rest)) = fi_Size f
               \<and> (\<forall>m d. stat fs fullPath = Some (File m d) \<longrightarrow> payload rest = take (nat (fi_Size f)) d)"
    by (intro exI [of _ "h0\<lparr>Name := ToSlash (Join [relativePath, tarHeaderFileName])\<rparr>"] exI [of _ rest]) simp
next
  fix m d
  assume "stat fs fullPath = Some (File m d)" "werr tw = None" "nb tw \<le> 0" "0 \<le> fi_Size f"
  from StreamRenameFile_on_regular [OF assms this(2,3,4,1), of Separator tarHeaderFileName relativePath]
  show "StreamRenameFile f tarHeaderFileName relativePath fullPath fs tw
              = (if int (length d) < fi_Size f then Some EOF else None,
                 tw\<lparr>out := out tw
                         @ Hdr \<lparr>Typeflag = TypeReg,
                                 Name = ToSlash (Join [relativePath, tarHeaderFileName]),
                                 Linkname = [], Size = fi_Size f, Mode = header_mode (fi_Mode f),
                                 ModTime = fi_ModTime f\<rparr>
                         # (if take (nat (fi_Size f)) d = [] then []
                            else [Data (take (nat (fi_Size f)) d)]),
                     nb := fi_Size f - int (length (take (nat (fi_Size f)) d))\<rparr>)"
    by (simp add: StreamRenameFile_def ToSlash_def Join_def del: take_eq_Nil)
next
  fix m d
  assume f: "stat fs fullPath = Some (File m d)" and short: "int (length d) < fi_Size f"
  obtain e tw' where r: "StreamRenameFile f tarHeaderFileName relativePath fullPath fs tw = (e, tw')"
    by (cases "StreamRenameFile f tarHeaderFileName relativePath fullPath fs tw")
  have "e \<noteq> None"
  proof
    assume "e = None"
    with StreamRenameFile_shape [OF r] assms f
    obtain rest where "int (length (payload rest)) = fi_Size f" "payload rest = take (nat (fi_Size f)) d"
      by auto
    with short show False by simp
  qed
  with r show "fst (StreamRenameFile f tarHeaderFileName relativePath fullPath fs tw) \<noteq> None" by simp
qed

theorem StreamRenameFile_copies_declared_size_witness:
  "IsRegular (fi_Mode ex_file)
   \<and> StreamRenameFile ex_file ''a.tsm'' ''db/rp/1'' ''/shard/1/a.tsm'' ex_shard (NewWriter [])
       = (None, \<lparr>out = [Hdr \<lparr>Typeflag = TypeReg, Name = ''db/rp/1/a.tsm'', Linkname = [], Size = 3,
                            Mode = 0x1A4, ModTime = 10\<rparr>, Data [1, 2, 3]], nb = 0, werr = None\<rparr>)
   \<and> int (length (payload [Data [1, 2, 3 :: byte]])) = fi_Size ex_file
   \<and> stat ex_shard ''/shard/1/a.tsm'' = Some (File 0x1A4 [1, 2, 3])
   \<and> StreamRenameFile (ex_file\<lparr>fi_Size := 5\<rparr>) ''a.tsm'' ''db/rp/1'' ''/shard/1/a.tsm'' ex_shard (NewWriter [])
       = (Some EOF, \<lparr>out = [Hdr \<lparr>Typeflag = TypeReg, Name = ''db/rp/1/a.tsm'', Linkname = [], Size = 5,
                                Mode = 0x1A4, ModTime = 10\<rparr>, Data [1, 2, 3]], nb = 2, werr = None\<rparr>)"
proof -
  have reg: "IsRegular (fi_Mode ex_file)" "IsRegular (fi_Mode (ex_file\<lparr>fi_Size := 5\<rparr>))"
    by (simp_all add: eval_defs)
  have st: "stat ex_shard ''/shard/1/a.tsm'' = Some (File 0x1A4 [1, 2, 3])"
    by (simp add: eval_defs)
  have w: "werr (NewWriter []) = None" "nb (NewWriter []) \<le> 0" "out (NewWriter []) = []"
    by (simp_all add: NewWriter_def)
  have n: "ToSlash (Join [''db/rp/1'', ''a.tsm'']) = ''db/rp/1/a.tsm''"
          "header_mode (fi_Mode ex_file) = 0x1A4"
    by (simp_all add: eval_defs)
  note t1 = StreamRenameFile_copies_declared_size [OF reg(1), of "''a.tsm''" "''db/rp/1''" "''/shard/1/a.tsm''" ex_shard "NewWriter []"]
  note t2 = StreamRenameFile_copies_declared_size [OF reg(2), of "''a.tsm''" "''db/rp/1''" "''/shard/1/a.tsm''" ex_shard "NewWriter []"]
  from t1 st w n have a: "StreamRenameFile ex_file ''a.tsm'' ''db/rp/1'' ''/shard/1/a.tsm'' ex_shard (NewWriter [])
       = (None, \<lparr>out = [Hdr \<lparr>Typeflag = TypeReg, Name = ''db/rp/1/a.tsm'', Linkname = [], Size = 3,
                            Mode = 0x1A4, ModTime = 10\<rparr>, Data [1, 2, 3]], nb = 0, werr = None\<rparr>)"
    by (simp add: ex_file_def NewWriter_def)
  from t2 st w n have b: "StreamRenameFile (ex_file\<lparr>fi_Size := 5\<rparr>) ''a.tsm'' ''db/rp/1'' ''/shard/1/a.tsm'' ex_shard (NewWriter [])
       = (Some EOF, \<lparr>out = [Hdr \<lparr>Typeflag = TypeReg, Name = ''db/rp/1/a.tsm'', Linkname = [], Size = 5,
                                Mode = 0x1A4, ModTime = 10\<rparr>, Data [1, 2, 3]], nb = 2, werr = None\<rparr>)"
    by (simp add: ex_file_def NewWriter_def)
  from reg st a b show ?thesis by (simp add: payload_def ex_file_def)
qed

lemma StreamFile_observable: "StreamFile f shardRelativePath fullPath fs tw \<noteq> (None, tw)"
proof
  assume "StreamFile f shardRelativePath fullPath fs tw = (None, tw)"
  then have "StreamRenameFile f (fi_Name f) shardRelativePath fullPath fs tw = (None, tw)"
    by (simp add: StreamFile_def)
  from StreamRenameFile_shape [OF this] show False by auto
qed

text \<open>
  C4. The handler made by \<^verbatim>\<open>SinceFilterTarFile since\<close> hands the entry to
  \<^verbatim>\<open>StreamFile\<close> when its modification time is strictly after \<open>since\<close>, and
  otherwise returns success with the writer untouched. A call of \<^verbatim>\<open>StreamFile\<close>
  never looks like that (it fails or adds a header), so the wrapper returns success
  without adding anything exactly when the modification time is at or before the cutoff.
\<close>

theorem SinceFilterTarFile_strictly_after:
  "SinceFilterTarFile since f shardRelativePath fullPath fs tw =
     (if since < fi_ModTime f then StreamFile f shardRelativePath fullPath fs tw else (None, tw))
   \<and> (SinceFilterTarFile since f shardRelativePath fullPath fs tw = (None, tw) \<longleftrightarrow> fi_ModTime f \<le> since)"
  using StreamFile_observable [of f shardRelativePath fullPath fs tw]
  by (auto simp: SinceFilterTarFile_def After_def)

theorem SinceFilterTarFile_strictly_after_witness:
  "SinceFilterTarFile 10 ex_file ''db/rp/1'' ''/shard/1/a.tsm'' ex_shard (NewWriter []) = (None, NewWriter [])
   \<and> fi_ModTime ex_file \<le> 10
   \<and> SinceFilterTarFile 9 ex_file ''db/rp/1'' ''/shard/1/a.tsm'' ex_shard (NewWriter [])
       = StreamFile ex_file ''db/rp/1'' ''/shard/1/a.tsm'' ex_shard (NewWriter [])"
  using SinceFilterTarFile_strictly_after [of 10 ex_file "''db/rp/1''" "''/shard/1/a.tsm''" ex_shard "NewWriter []"]
        SinceFilterTarFile_strictly_after [of 9 ex_file "''db/rp/1''" "''/shard/1/a.tsm''" ex_shard "NewWriter []"]
  by (simp add: ex_file_def)

subsection \<open>Restore: the loop and the final sync\<close>

lemma mkdir_prefixes_dirsynced:
  "mkdir_prefixes ps perm fs = (e, fs') \<Longrightarrow> dirsynced fs' = dirsynced fs"
  by (induction ps perm fs rule: mkdir_prefixes.induct)
     (auto simp: stat_def split: option.splits node.splits if_splits)

lemma MkdirAll_dirsynced: "MkdirAll path perm fs = (e, fs') \<Longrightarrow> dirsynced fs' = dirsynced fs"
  by (auto simp: MkdirAll_def dest: mkdir_prefixes_dirsynced split: if_splits)

lemma OpenFile_dirsynced: "OpenFile name flag perm fs = (r, fs') \<Longrightarrow> dirsynced fs' = dirsynced fs"
  by (auto simp: OpenFile_def split: option.splits node.splits if_splits)

lemma CopyN_from_tar_dirsynced:
  "CopyN_from_tar f tr n fs = (e, f', tr', fs') \<Longrightarrow> dirsynced fs' = dirsynced fs"
  by (auto simp: CopyN_from_tar_def file_Write_def Let_def
           split: option.splits node.splits if_splits prod.splits list.splits tar_rec.splits)

lemma RenameFile_dirsynced: "RenameFile a b fs = (e, fs') \<Longrightarrow> dirsynced fs' = dirsynced fs"
  by (auto simp: RenameFile_def split: option.splits node.splits)

lemma file_Sync_dirsynced: "file_Sync f fs = (e, fs') \<Longrightarrow> dirsynced fs' = dirsynced fs"
  by (auto simp: file_Sync_def split: if_splits)

lemma CreateFileFromTar_dirsynced:
  assumes "CreateFileFromTar destPath tr hdr fs = (e, tr', fs')"
  shows "dirsynced fs' = dirsynced fs"
proof -
  define tmp where "tmp = destPath @ ''.tmp''"
  obtain r fs0 where o: "OpenFile tmp (O_CREATE OR O_RDWR) (Perm (ucast (Mode hdr))) fs = (r, fs0)"
    by (cases "OpenFile tmp (O_CREATE OR O_RDWR) (Perm (ucast (Mode hdr))) fs")
  note d0 = OpenFile_dirsynced [OF o]
  show ?thesis
  proof (cases r)
    case (Inl err)
    with assms o d0 show ?thesis by (simp add: CreateFileFromTar_def tmp_def [symmetric])
  next
    case (Inr f)
    obtain ce f1 tr1 fs1 where c: "CopyN_from_tar f tr (Size hdr) fs0 = (ce, f1, tr1, fs1)"
      by (cases "CopyN_from_tar f tr (Size hdr) fs0")
    note d1 = CopyN_from_tar_dirsynced [OF c]
    show ?thesis
    proof (cases ce)
      case (Some err)
      with assms o Inr c d0 d1 show ?thesis by (simp add: CreateFileFromTar_def tmp_def [symmetric])
    next
      case None
      obtain se fs2 where sy: "file_Sync f1 fs1 = (se, fs2)" by (cases "file_Sync f1 fs1")
      note d2 = file_Sync_dirsynced [OF sy]
      show ?thesis
      proof (cases se)
        case (Some err)
        with assms o Inr c None sy d0 d1 d2 show ?thesis
          by (simp add: CreateFileFromTar_def tmp_def [symmetric])
      next
        case N2: None
        obtain re fs4 where rn: "RenameFile tmp destPath fs2 = (re, fs4)" by (cases "RenameFile tmp destPath fs2")
        note d4 = RenameFile_dirsynced [OF rn]
        from assms o Inr c None sy N2 rn d0 d1 d2 d4 show ?thesis
          by (simp add: CreateFileFromTar_def tmp_def [symmetric] file_Close_def)
      qed
    qed
  qed
qed

lemma MkdirAll_snd_dirsynced: "dirsynced (snd (MkdirAll path perm fs)) = dirsynced fs"
  by (rule MkdirAll_dirsynced [OF prod.collapse [symmetric]])

lemma extractFile_Next_error: "Next tr = (Inl err, tr1) \<Longrightarrow> extractFile tr dir fs = (Some err, tr1, fs)"
  by (simp add: extractFile_def)

lemma extractFile_Next_header:
  "Next tr = (Inr hdr, tr1) \<Longrightarrow>
   extractFile tr dir fs =
     (if length (strings_Split (FromSlash (Name hdr)) Separator) < 3
      then (Some (Errorf (''invalid archive path: '' @ Name hdr)), tr1, fs)
      else if Typeflag hdr = TypeDir
      then (fst (MkdirAll (Join [dir, fst (Split (Join (drop 3 (strings_Split (FromSlash (Name hdr)) Separator))))])
                   (Perm (ucast (Mode hdr))) fs),
            tr1,
            snd (MkdirAll (Join [dir, fst (Split (Join (drop 3 (strings_Split (FromSlash (Name hdr)) Separator))))])
                   (Perm (ucast (Mode hdr))) fs))
      else if fst (Split (Join (drop 3 (strings_Split (FromSlash (Name hdr)) Separator)))) = []
      then CreateFileFromTar (Join [dir, Join (drop 3 (strings_Split (FromSlash (Name hdr)) Separator))])
             tr1 hdr fs
      else (case MkdirAll (Join [dir, fst (Split (Join (drop 3 (strings_Split (FromSlash (Name hdr)) Separator))))]) 0x1ED fs of
              (Some err, fs') \<Rightarrow> (Some err, tr1, fs')
            | (None, fs') \<Rightarrow>
                CreateFileFromTar (Join [dir, Join (drop 3 (strings_Split (FromSlash (Name hdr)) Separator))])
                  tr1 hdr fs'))"
  by (simp add: extractFile_def Let_def split: prod.splits)

lemma extractFile_dirsynced:
  assumes "extractFile tr dir fs = (e, tr', fs')"
  shows "dirsynced fs' = dirsynced fs"
proof -
  obtain r tr1 where n: "Next tr = (r, tr1)" by (cases "Next tr")
  show ?thesis
  proof (cases r)
    case (Inl err)
    with n assms show ?thesis by (simp add: extractFile_Next_error)
  next
    case (Inr hdr)
    with n have p: "Next tr = (Inr hdr, tr1)" by simp
    show ?thesis
      using assms unfolding extractFile_Next_header [OF p]
      by (auto split: if_splits prod.splits option.splits
               dest!: MkdirAll_dirsynced CreateFileFromTar_dirsynced
               simp: MkdirAll_snd_dirsynced)
  qed
qed

lemma Restore_loop_step:
  "extractFile tr dir fs = (None, tr', fs') \<Longrightarrow> Restore_loop tr dir fs = Restore_loop tr' dir fs'"
  by (subst Restore_loop.simps) simp

lemma Restore_loop_stop:
  "extractFile tr dir fs = (Some e, tr', fs') \<Longrightarrow>
   Restore_loop tr dir fs = (if e = EOF then (None, fs') else (Some e, fs'))"
  by (subst Restore_loop.simps) simp

lemma Restore_loop_dirsynced: "Restore_loop tr dir fs = (e, fs') \<Longrightarrow> dirsynced fs' = dirsynced fs"
proof (induction tr dir fs rule: Restore_loop.induct)
  case (1 tr dir fs)
  obtain e1 tr1 fs1 where x: "extractFile tr dir fs = (e1, tr1, fs1)"
    by (cases "extractFile tr dir fs")
  note d = extractFile_dirsynced [OF x]
  show ?case
  proof (cases e1)
    case None
    with x "1.prems" have "Restore_loop tr1 dir fs1 = (e, fs')"
      by (simp add: Restore_loop_step)
    with "1.IH" x None have "dirsynced fs' = dirsynced fs1" by simp
    with d show ?thesis by simp
  next
    case (Some err)
    with x "1.prems" d show ?thesis by (auto simp add: Restore_loop_stop split: if_splits)
  qed
qed

lemma SyncDir_dirsynced: "SyncDir dir fs = (None, fs') \<Longrightarrow> dirsynced fs' = dir # dirsynced fs"
  by (auto simp: SyncDir_def split: option.splits node.splits if_splits)

text \<open>
  What holds of \<^verbatim>\<open>Restore\<close> on every archive: when the loop ends without error the result
  is that of the directory sync of the destination root, so a successful \<^verbatim>\<open>Restore\<close> has
  synced the root last; an error of the loop is returned as it is, with no sync.
\<close>

lemma Restore_sync:
  "(Restore_loop (NewReader r) dir fs = (None, fs1) \<longrightarrow> Restore r dir fs = SyncDir dir fs1)
   \<and> (Restore r dir fs = (None, fs') \<longrightarrow> dirsynced fs' = dir # dirsynced fs)
   \<and> (Restore_loop (NewReader r) dir fs = (Some e, fs1) \<longrightarrow>
         Restore r dir fs = (Some e, fs1) \<and> dirsynced fs1 = dirsynced fs)"
proof (intro conjI impI)
  assume "Restore_loop (NewReader r) dir fs = (None, fs1)"
  then show "Restore r dir fs = SyncDir dir fs1" by (simp add: Restore_def)
next
  assume a: "Restore r dir fs = (None, fs')"
  obtain e0 fs0 where l: "Restore_loop (NewReader r) dir fs = (e0, fs0)"
    by (cases "Restore_loop (NewReader r) dir fs")
  with a have e0: "e0 = None" and s: "SyncDir dir fs0 = (None, fs')"
    by (auto simp: Restore_def split: option.splits)
  from SyncDir_dirsynced [OF s] Restore_loop_dirsynced [OF l]
  show "dirsynced fs' = dir # dirsynced fs" by simp
next
  assume a: "Restore_loop (NewReader r) dir fs = (Some e, fs1)"
  then show "Restore r dir fs = (Some e, fs1)" by (simp add: Restore_def)
  from a show "dirsynced fs1 = dirsynced fs" by (rule Restore_loop_dirsynced)
qed

text \<open>
  C9. \<^verbatim>\<open>Restore\<close> ends its loop without error on every \<^verbatim>\<open>io.EOF\<close> that \<^verbatim>\<open>extractFile\<close>
  returns, and \<^verbatim>\<open>io.EOF\<close> is also what \<^verbatim>\<open>io.CopyN\<close> returns in \<^verbatim>\<open>CreateFileFromTar\<close> when
  the entry supplies fewer bytes than its header declares. On the archive of a hard-link
  entry that declares 2 bytes, followed by the regular file \<^verbatim>\<open>db/rp/1/b.tsm\<close>, the first
  round returns \<^verbatim>\<open>io.EOF\<close> from the copy: the loop stops there, the root is synced and
  \<^verbatim>\<open>Restore\<close> returns success, with the empty temporary file of the first entry left in
  the destination and the second entry never read. An archive cut inside a payload is
  reported: the copy returns \<^verbatim>\<open>io.ErrUnexpectedEOF\<close>, which \<^verbatim>\<open>Restore\<close> returns with no sync.
\<close>

theorem Restore_short_entry_taken_for_end:
  "fst (extractFile (NewReader [Rec ex_link [], Rec (ex_hdr ''db/rp/1/b.tsm'') [1, 2]]) ''/data'' ex_data) = Some EOF
   \<and> pending (fst (snd (extractFile (NewReader [Rec ex_link [], Rec (ex_hdr ''db/rp/1/b.tsm'') [1, 2]]) ''/data'' ex_data)))
       = [Rec (ex_hdr ''db/rp/1/b.tsm'') [1, 2]]
   \<and> fst (Restore [Rec ex_link [], Rec (ex_hdr ''db/rp/1/b.tsm'') [1, 2]] ''/data'' ex_data) = None
   \<and> dirsynced (snd (Restore [Rec ex_link [], Rec (ex_hdr ''db/rp/1/b.tsm'') [1, 2]] ''/data'' ex_data)) = [''/data'']
   \<and> stat (snd (Restore [Rec ex_link [], Rec (ex_hdr ''db/rp/1/b.tsm'') [1, 2]] ''/data'' ex_data)) ''/data/b.tsm'' = None
   \<and> stat (snd (Restore [Rec ex_link [], Rec (ex_hdr ''db/rp/1/b.tsm'') [1, 2]] ''/data'' ex_data)) ''/data/a.lnk.tmp''
       = Some (File 0x1A4 [])
   \<and> fst (Restore [Rec (ex_hdr ''db/rp/1/b.tsm'') [1]] ''/data'' ex_data) = Some ErrUnexpectedEOF
   \<and> dirsynced (snd (Restore [Rec (ex_hdr ''db/rp/1/b.tsm'') [1]] ''/data'' ex_data)) = []"
  by code_simp

subsection \<open>The archiver's walk and its end\<close>

lemma Walk_invariant:
  assumes "\<And>v tw e tw'. fn v tw = (e, tw') \<Longrightarrow> I tw \<Longrightarrow> I tw'"
  shows "Walk walk fn tw = (e, tw') \<Longrightarrow> I tw \<Longrightarrow> I tw'"
proof (induction walk arbitrary: tw)
  case Nil
  then show ?case by simp
next
  case (Cons v vs)
  obtain e1 tw1 where s: "fn v tw = (e1, tw1)" by (cases "fn v tw")
  from assms [OF s Cons.prems(2)] have i: "I tw1" .
  show ?case
  proof (cases e1)
    case None
    with s Cons.prems(1) have "Walk vs fn tw1 = (e, tw')" by simp
    from Cons.IH [OF this i] show ?thesis .
  next
    case (Some err)
    with s Cons.prems(1) i show ?thesis by simp
  qed
qed

lemma Walk_success_invariant:
  assumes "\<And>v tw tw'. fn v tw = (None, tw') \<Longrightarrow> J tw \<Longrightarrow> J tw'"
  shows "Walk walk fn tw = (None, tw') \<Longrightarrow> J tw \<Longrightarrow> J tw'"
proof (induction walk arbitrary: tw)
  case Nil
  then show ?case by simp
next
  case (Cons v vs)
  obtain e1 tw1 where s: "fn v tw = (e1, tw1)" by (cases "fn v tw")
  show ?case
  proof (cases e1)
    case None
    with s Cons.prems(1) have w: "Walk vs fn tw1 = (None, tw')" by simp
    from assms [OF s [unfolded None] Cons.prems(2)] have "J tw1" .
    from Cons.IH [OF w this] show ?thesis .
  next
    case (Some err)
    with s Cons.prems(1) show ?thesis by simp
  qed
qed

lemma StreamRenameFile_no_Footer:
  assumes "StreamRenameFile f nm rp fp fs tw = (e, tw')" "Footer \<notin> set (out tw)"
  shows "Footer \<notin> set (out tw')"
  using StreamRenameFile_shape [OF assms(1)] assms(2) by auto

lemma CopyN_to_tar_sound:
  assumes "CopyN_to_tar tw fr n fs = (None, tw')" "werr tw = None" "nb tw = n" "0 \<le> n"
  shows "werr tw' = None \<and> nb tw' \<le> 0"
  using assms
  by (auto simp: CopyN_to_tar_def Let_def tw_Write_eq split: option.splits node.splits if_splits)

lemma StreamRenameFile_sound:
  assumes "StreamRenameFile f nm rp fp fs tw = (None, tw')"
  shows "werr tw' = None \<and> nb tw' \<le> 0"
proof (cases "FileInfoHeader f (fi_Name f)")
  case (Inl err)
  with assms show ?thesis by (simp add: StreamRenameFile_unfold)
next
  case (Inr h0)
  define h where "h = h0\<lparr>Name := ToSlash (Join [rp, nm])\<rparr>"
  obtain e1 tw1 where wh: "tw_WriteHeader h tw = (e1, tw1)" by (cases "tw_WriteHeader h tw")
  with assms Inr have e1: "e1 = None"
    by (cases e1) (auto simp: StreamRenameFile_unfold Let_def h_def)
  with tw_WriteHeader_cases [OF wh]
  have tw1: "werr tw1 = None" "nb tw1 = (if Typeflag h = TypeReg then Size h else 0)" "0 \<le> Size h"
    by auto
  show ?thesis
  proof (cases "IsRegular (fi_Mode f)")
    case False
    with FileInfoHeader_not_regular [OF False Inr] have "Typeflag h \<noteq> TypeReg" by (simp add: h_def)
    with assms Inr wh e1 False tw1 show ?thesis
      by (auto simp: StreamRenameFile_unfold Let_def h_def [symmetric])
  next
    case True
    with Inr have "Typeflag h = TypeReg" by (auto simp: FileInfoHeader_regular h_def)
    with tw1 have nb1: "nb tw1 = Size h" by simp
    show ?thesis
    proof (cases "stat fs fp")
      case None
      with assms Inr wh e1 True show ?thesis
        by (auto simp: StreamRenameFile_unfold Let_def h_def [symmetric] Open_eq)
    next
      case (Some n)
      with assms Inr wh e1 True
      have c: "CopyN_to_tar tw1 \<lparr>fname = fp, offset = 0\<rparr> (Size h) fs = (None, tw')"
        by (auto simp: StreamRenameFile_unfold Let_def h_def [symmetric] Open_eq)
      from CopyN_to_tar_sound [OF c tw1(1) nb1 tw1(3)] show ?thesis .
    qed
  qed
qed

lemma walkFn_StreamFile_no_Footer:
  assumes "walkFn Rel dir rp StreamFile keep fs v tw = (e, tw')" "Footer \<notin> set (out tw)"
  shows "Footer \<notin> set (out tw')"
  using assms
  by (auto simp: walkFn_def StreamFile_def Let_def split: prod.splits option.splits if_splits sum.splits
           dest: StreamRenameFile_no_Footer)

lemma walkFn_StreamFile_sound:
  assumes "walkFn Rel dir rp StreamFile keep fs v tw = (None, tw')" "werr tw = None \<and> nb tw \<le> 0"
  shows "werr tw' = None \<and> nb tw' \<le> 0"
  using assms
  by (auto simp: walkFn_def StreamFile_def Let_def split: prod.splits option.splits if_splits sum.splits
           dest: StreamRenameFile_sound)

lemma tw_Flush_out: "out (snd (tw_Flush tw)) = out tw"
  by (simp add: tw_Flush_eq)

lemma tw_Close_out:
  "out (snd (tw_Close tw)) = (if werr tw = None \<and> nb tw \<le> 0 then out tw @ [Footer] else out tw)"
  by (cases "werr tw") (auto simp: tw_Close_def tw_Flush_def)

text \<open>
  C8, as amended. Whatever the walk returns, error or not, \<^verbatim>\<open>Stream\<close> returns it after
  the deferred call on the writer: \<^verbatim>\<open>tw.Flush()\<close> when the archive is kept open, which
  adds nothing to the output (no end markers), and \<^verbatim>\<open>tw.Close()\<close> otherwise, which adds
  the end markers when the writer has not failed and the last entry has its whole
  payload, and adds nothing when it has not. With the default handler the walk itself
  writes no end markers, and a walk that succeeds leaves the writer whole, so that the
  archive then ends with the end markers.
\<close>

theorem Stream_deferred_finalization:
  assumes "Walk walk (walkFn Rel dir relativePath (case writeFunc of None \<Rightarrow> StreamFile | Some fn \<Rightarrow> fn)
                        keepTarOpen fs) (NewWriter w) = (err, tw)"
  shows "Stream w Rel walk fs dir relativePath writeFunc keepTarOpen
           = (err, snd (if keepTarOpen then tw_Flush tw else tw_Close tw))
       \<and> (keepTarOpen \<longrightarrow> out (snd (Stream w Rel walk fs dir relativePath writeFunc keepTarOpen)) = out tw)
       \<and> (\<not> keepTarOpen \<longrightarrow>
            out (snd (Stream w Rel walk fs dir relativePath writeFunc keepTarOpen))
              = (if werr tw = None \<and> nb tw \<le> 0 then out tw @ [Footer] else out tw))
       \<and> (writeFunc = None \<longrightarrow> Footer \<notin> set w \<longrightarrow> Footer \<notin> set (out tw))
       \<and> (writeFunc = None \<longrightarrow> err = None \<longrightarrow> werr tw = None \<and> nb tw \<le> 0)"
proof -
  have s: "Stream w Rel walk fs dir relativePath writeFunc keepTarOpen
           = (err, snd (if keepTarOpen then tw_Flush tw else tw_Close tw))"
    using assms by (simp add: Stream_def Let_def)
  have f: "Footer \<notin> set (out tw)" if "writeFunc = None" "Footer \<notin> set w"
  proof -
    from assms that(1)
    have w: "Walk walk (walkFn Rel dir relativePath StreamFile keepTarOpen fs) (NewWriter w) = (err, tw)"
      by simp
    show ?thesis
      by (rule Walk_invariant [where I = "\<lambda>t. Footer \<notin> set (out t)", OF _ w])
         (auto dest: walkFn_StreamFile_no_Footer simp: NewWriter_def that(2))
  qed
  have g: "werr tw = None \<and> nb tw \<le> 0" if "writeFunc = None" "err = None"
  proof -
    from assms that
    have w: "Walk walk (walkFn Rel dir relativePath StreamFile keepTarOpen fs) (NewWriter w) = (None, tw)"
      by simp
    show ?thesis
      by (rule Walk_success_invariant [where J = "\<lambda>t. werr t = None \<and> nb t \<le> 0", OF _ w])
         (auto dest: walkFn_StreamFile_sound simp: NewWriter_def)
  qed
  show ?thesis
  proof (cases keepTarOpen)
    case True
    with s have "Stream w Rel walk fs dir relativePath writeFunc True = (err, snd (tw_Flush tw))" by simp
    with True f g show ?thesis by (simp add: tw_Flush_out)
  next
    case False
    with s have "Stream w Rel walk fs dir relativePath writeFunc False = (err, snd (tw_Close tw))" by simp
    with False f g show ?thesis by (simp add: tw_Close_out)
  qed
qed

lemmas stream_eval_defs = Stream_def walkFn_def ex_walk_def ex_walk_shrunk_def ex_Rel_def eval_defs

text \<open>
  C8 as stated fails on an error exit that leaves an entry short: the file of the example
  shrank after it was stat'ed, \<^verbatim>\<open>io.CopyN\<close> returns \<^verbatim>\<open>io.EOF\<close>, and the deferred
  \<^verbatim>\<open>tw.Close()\<close> declines to finish the archive: no end markers are written.
\<close>

theorem Stream_short_copy_no_Footer:
  "Stream [] ex_Rel ex_walk_shrunk ex_shard ''/shard/1'' ''db/rp/1'' None False
     = (Some EOF,
        \<lparr>out = [Hdr \<lparr>Typeflag = TypeReg, Name = ''db/rp/1/a.tsm'', Linkname = [], Size = 5,
                     Mode = 0x1A4, ModTime = 10\<rparr>, Data [1, 2, 3]],
         nb = 2, werr = Some ErrWriteAfterClose\<rparr>)
   \<and> Footer \<notin> set (out (snd (Stream [] ex_Rel ex_walk_shrunk ex_shard ''/shard/1'' ''db/rp/1'' None False)))"
  by (simp add: stream_eval_defs)

theorem Stream_deferred_finalization_witness:
  "Stream [] ex_Rel ex_walk ex_shard ''/shard/1'' ''db/rp/1'' None False
     = (None,
        \<lparr>out = [Hdr \<lparr>Typeflag = TypeReg, Name = ''db/rp/1/a.tsm'', Linkname = [], Size = 3,
                     Mode = 0x1A4, ModTime = 10\<rparr>, Data [1, 2, 3], Footer],
         nb = 0, werr = Some ErrWriteAfterClose\<rparr>)
   \<and> out (snd (Stream [] ex_Rel ex_walk ex_shard ''/shard/1'' ''db/rp/1'' None True))
     = [Hdr \<lparr>Typeflag = TypeDir, Name = ''db/rp/1/1'', Linkname = [], Size = 0,
              Mode = 0x1ED, ModTime = 5\<rparr>,
        Hdr \<lparr>Typeflag = TypeReg, Name = ''db/rp/1/a.tsm'', Linkname = [], Size = 3,
              Mode = 0x1A4, ModTime = 10\<rparr>, Data [1, 2, 3]]"
proof -
  have w1: "Walk ex_walk (walkFn ex_Rel ''/shard/1'' ''db/rp/1'' (case None of None \<Rightarrow> StreamFile | Some fn \<Rightarrow> fn)
                        False ex_shard) (NewWriter [])
      = (None, \<lparr>out = [Hdr \<lparr>Typeflag = TypeReg, Name = ''db/rp/1/a.tsm'', Linkname = [], Size = 3,
                     Mode = 0x1A4, ModTime = 10\<rparr>, Data [1, 2, 3]], nb = 0, werr = None\<rparr>)"
    by (simp add: stream_eval_defs)
  have w2: "Walk ex_walk (walkFn ex_Rel ''/shard/1'' ''db/rp/1'' (case None of None \<Rightarrow> StreamFile | Some fn \<Rightarrow> fn)
                        True ex_shard) (NewWriter [])
      = (None, \<lparr>out = [Hdr \<lparr>Typeflag = TypeDir, Name = ''db/rp/1/1'', Linkname = [], Size = 0,
                          Mode = 0x1ED, ModTime = 5\<rparr>,
                       Hdr \<lparr>Typeflag = TypeReg, Name = ''db/rp/1/a.tsm'', Linkname = [], Size = 3,
                     Mode = 0x1A4, ModTime = 10\<rparr>, Data [1, 2, 3]], nb = 0, werr = None\<rparr>)"
    by (simp add: stream_eval_defs)
  from Stream_deferred_finalization [OF w1] Stream_deferred_finalization [OF w2]
  show ?thesis by (simp add: tw_Close_def tw_Flush_def)
qed

subsection \<open>The root directory\<close>

lemma StreamFile_dir:
  assumes "fi_IsDir f"
  shows "StreamFile f rp fp fs (NewWriter w)
     = (None, \<lparr>out = w @ [Hdr \<lparr>Typeflag = TypeDir, Name = ToSlash (Join [rp, fi_Name f]), Linkname = [],
                             Size = 0, Mode = header_mode (fi_Mode f), ModTime = fi_ModTime f\<rparr>],
               nb = 0, werr = None\<rparr>)"
proof -
  from assms have nr: "\<not> IsRegular (fi_Mode f)" by (simp add: fi_IsDir_def IsDir_not_IsRegular)
  show ?thesis
    by (simp add: StreamFile_def StreamRenameFile_unfold FileInfoHeader_dir [OF assms] nr
          tw_WriteHeader_def tw_Flush_def NewWriter_def TypeDir_def TypeReg_def)
qed

text \<open>
  For the root directory (the visit whose path is \<open>dir\<close> and that is a directory), with
  the archive not kept open the function passed to the walk returns at once, the writer
  untouched and no handler called, so the root adds nothing to what \<^verbatim>\<open>Stream\<close> does;
  with the archive kept open it is one call of the handler, with the logical prefix
  itself as the logical directory. For an empty directory kept open, \<^verbatim>\<open>Stream\<close> is that
  one call followed by the flush: what the sink receives is what the handler writes, and
  with the default handler that is exactly one entry, the root's header.
\<close>

lemma Stream_root_directory:
  assumes "fi_IsDir f"
  shows "walkFn Rel dir relativePath fn False fs (dir, f, None) tw = (None, tw)
       \<and> Stream w Rel ((dir, f, None) # walk) fs dir relativePath writeFunc False
           = Stream w Rel walk fs dir relativePath writeFunc False
       \<and> walkFn Rel dir relativePath fn True fs (dir, f, None) tw = fn f relativePath dir fs tw
       \<and> Stream w Rel [(dir, f, None)] fs dir relativePath (Some fn) True
           = (case fn f relativePath dir fs (NewWriter w) of (err, tw') \<Rightarrow> (err, snd (tw_Flush tw')))
       \<and> Stream w Rel [(dir, f, None)] fs dir relativePath None True
           = (None, \<lparr>out = w @ [Hdr \<lparr>Typeflag = TypeDir, Name = ToSlash (Join [relativePath, fi_Name f]),
                                   Linkname = [], Size = 0, Mode = header_mode (fi_Mode f),
                                   ModTime = fi_ModTime f\<rparr>],
                     nb = 0, werr = None\<rparr>)"
proof (intro conjI)
  show "walkFn Rel dir relativePath fn False fs (dir, f, None) tw = (None, tw)"
    using assms by (simp add: walkFn_def)
  show "Stream w Rel ((dir, f, None) # walk) fs dir relativePath writeFunc False
           = Stream w Rel walk fs dir relativePath writeFunc False"
    using assms by (simp add: Stream_def walkFn_def Let_def)
  show "walkFn Rel dir relativePath fn True fs (dir, f, None) tw = fn f relativePath dir fs tw"
    using assms by (simp add: walkFn_def)
  show "Stream w Rel [(dir, f, None)] fs dir relativePath (Some fn) True
           = (case fn f relativePath dir fs (NewWriter w) of (err, tw') \<Rightarrow> (err, snd (tw_Flush tw')))"
    using assms by (auto simp: Stream_def walkFn_def Let_def split: prod.splits option.splits)
  show "Stream w Rel [(dir, f, None)] fs dir relativePath None True
           = (None, \<lparr>out = w @ [Hdr \<lparr>Typeflag = TypeDir, Name = ToSlash (Join [relativePath, fi_Name f]),
                                   Linkname = [], Size = 0, Mode = header_mode (fi_Mode f),
                                   ModTime = fi_ModTime f\<rparr>],
                     nb = 0, werr = None\<rparr>)"
    using assms by (simp add: Stream_def walkFn_def Let_def StreamFile_dir tw_Flush_def)
qed

lemmas root_eval_defs = ex_empty_def stream_eval_defs

text \<open>
  C5. The walk of an empty shard directory visits the root alone. With the archive not
  kept open the root is skipped and only the end markers are written. With the archive
  kept open the handler is called once for the root, with the bare logical prefix; the
  default handler then writes the root's header, but the handler of
  \<^verbatim>\<open>SinceFilterTarFile\<close> with a cutoff that is not before the root's modification time
  returns without writing, and \<^verbatim>\<open>Stream\<close> returns success with nothing in the sink: no
  entry for the root, an empty stream.
\<close>

theorem Stream_root_filtered_out:
  "fi_IsDir ex_rootdir
   \<and> \<not> After (fi_ModTime ex_rootdir) 7
   \<and> Stream [] ex_Rel [(''/shard/1'', ex_rootdir, None)] ex_empty ''/shard/1'' ''db/rp/1'' None False
       = (None, \<lparr>out = [Footer], nb = 0, werr = Some ErrWriteAfterClose\<rparr>)
   \<and> Stream [] ex_Rel [(''/shard/1'', ex_rootdir, None)] ex_empty ''/shard/1'' ''db/rp/1'' None True
       = (None, \<lparr>out = [Hdr \<lparr>Typeflag = TypeDir, Name = ''db/rp/1/1'', Linkname = [], Size = 0,
                            Mode = 0x1ED, ModTime = 5\<rparr>], nb = 0, werr = None\<rparr>)
   \<and> walkFn ex_Rel ''/shard/1'' ''db/rp/1'' (SinceFilterTarFile 7) True ex_empty
         (''/shard/1'', ex_rootdir, None) (NewWriter [])
       = SinceFilterTarFile 7 ex_rootdir ''db/rp/1'' ''/shard/1'' ex_empty (NewWriter [])
   \<and> Stream [] ex_Rel [(''/shard/1'', ex_rootdir, None)] ex_empty ''/shard/1'' ''db/rp/1''
         (Some (SinceFilterTarFile 7)) True
       = (None, \<lparr>out = [], nb = 0, werr = None\<rparr>)"
  by (simp add: root_eval_defs)

subsection \<open>The default handler writes every entry\<close>

lemma StreamRenameFile_regular:
  assumes "IsRegular (fi_Mode f)" "werr tw = None" "nb tw \<le> 0" "0 \<le> fi_Size f"
    and "stat fs fullPath = Some (File m d)"
  shows "StreamRenameFile f tarHeaderFileName relativePath fullPath fs tw
           = (if int (length d) < fi_Size f then Some EOF else None,
              tw\<lparr>out := out tw
                      @ Hdr \<lparr>Typeflag = TypeReg,
                              Name = ToSlash (Join [relativePath, tarHeaderFileName]),
                              Linkname = [], Size = fi_Size f, Mode = header_mode (fi_Mode f),
                              ModTime = fi_ModTime f\<rparr>
                      # (if take (nat (fi_Size f)) d = [] then [] else [Data (take (nat (fi_Size f)) d)]),
                  nb := fi_Size f - int (length (take (nat (fi_Size f)) d))\<rparr>)"
  unfolding StreamRenameFile_def ToSlash_def Join_def
  by (rule StreamRenameFile_on_regular [OF assms])

lemma StreamRenameFile_not_regular:
  assumes "\<not> IsRegular (fi_Mode f)" "FileInfoHeader f (fi_Name f) = Inr h0"
    and "werr tw = None" "nb tw \<le> 0"
  shows "StreamRenameFile f tarHeaderFileName relativePath fullPath fs tw
           = (None, tw\<lparr>out := out tw @ [Hdr (h0\<lparr>Name := ToSlash (Join [relativePath, tarHeaderFileName])\<rparr>)],
                       nb := 0\<rparr>)"
  unfolding StreamRenameFile_def ToSlash_def Join_def
  by (rule StreamRenameFile_on_not_regular [OF assms])

lemma StreamFile_archived_entry:
  assumes hdr: "FileInfoHeader f (fi_Name f) = Inr h0"
    and reg: "IsRegular (fi_Mode f) \<Longrightarrow> \<exists>m d. stat fs fullPath = Some (File m d) \<and> int (length d) = fi_Size f"
    and tw: "werr tw = None" "nb tw = 0"
  shows "StreamFile f logicalDir fullPath fs tw
           = (None, tw\<lparr>out := out tw @ archived_entry logicalDir f fullPath fs, nb := 0\<rparr>)"
proof (cases "IsRegular (fi_Mode f)")
  case False
  from tw have le: "nb tw \<le> 0" by simp
  from False hdr show ?thesis
    by (simp add: StreamFile_def StreamRenameFile_not_regular [OF False hdr tw(1) le] archived_entry_def)
next
  case True
  from reg [OF True] obtain m d where st: "stat fs fullPath = Some (File m d)"
    and len: "int (length d) = fi_Size f" by blast
  from tw have le: "nb tw \<le> 0" by simp
  from len have sz: "0 \<le> fi_Size f" by simp
  from len have n: "nat (fi_Size f) = length d" by simp
  have h: "FileInfoHeader f (fi_Name f)
             = Inr \<lparr>Typeflag = TypeReg, Name = fi_Name f, Linkname = [], Size = fi_Size f,
                    Mode = header_mode (fi_Mode f), ModTime = fi_ModTime f\<rparr>"
    by (rule FileInfoHeader_regular [OF True])
  show ?thesis
    unfolding StreamFile_def StreamRenameFile_regular [OF True tw(1) le sz st] archived_entry_def h
    using True st len by (simp add: n del: take_eq_Nil)
qed

lemma walkFn_StreamFile_archived:
  assumes "visit_ok Rel dir fs v" "werr tw = None" "nb tw = 0"
  shows "walkFn Rel dir relativePath StreamFile keepTarOpen fs v tw
           = (None, tw\<lparr>out := out tw @ archived_walk Rel dir relativePath keepTarOpen fs [v], nb := 0\<rparr>)"
proof -
  obtain path f err where v: "v = (path, f, err)" by (cases v)
  from assms(1) v have err: "err = None" by simp
  from assms(1) v obtain h0 where hdr: "FileInfoHeader f (fi_Name f) = Inr h0"
    by (cases "FileInfoHeader f (fi_Name f)") simp_all
  have reg: "\<exists>m d. stat fs path = Some (File m d) \<and> int (length d) = fi_Size f" if "IsRegular (fi_Mode f)"
    using assms(1) v that by (auto split: option.splits node.splits)
  note sf = StreamFile_archived_entry [OF hdr reg assms(2,3)]
  have same: "tw\<lparr>out := out tw, nb := 0\<rparr> = tw" using assms(3) by simp
  show ?thesis
  proof (cases "dir = path \<and> fi_IsDir f")
    case True
    then show ?thesis using v err sf same by (simp add: walkFn_def)
  next
    case False
    with assms(1) v obtain subDir where r: "Rel dir (fst (Split path)) = Inr subDir"
      by (cases "Rel dir (fst (Split path))") auto
    show ?thesis
    proof (cases "dir = path")
      case True
      with False have "\<not> fi_IsDir f" by simp
      with True show ?thesis using v err sf r by (simp add: walkFn_def Let_def)
    next
      case ne: False
      then show ?thesis using v err sf r by (simp add: walkFn_def Let_def)
    qed
  qed
qed

lemma archived_walk_Cons:
  "archived_walk Rel dir relativePath keepTarOpen fs (v # vs)
     = archived_walk Rel dir relativePath keepTarOpen fs [v] @ archived_walk Rel dir relativePath keepTarOpen fs vs"
  by (cases v) simp

lemma Walk_StreamFile_archived:
  assumes "list_all (visit_ok Rel dir fs) walk" "werr tw = None" "nb tw = 0"
  shows "Walk walk (walkFn Rel dir relativePath StreamFile keepTarOpen fs) tw
           = (None, tw\<lparr>out := out tw @ archived_walk Rel dir relativePath keepTarOpen fs walk, nb := 0\<rparr>)"
  using assms
proof (induction walk arbitrary: tw)
  case Nil
  then show ?case by simp
next
  case (Cons v vs)
  define tw1 where "tw1 = tw\<lparr>out := out tw @ archived_walk Rel dir relativePath keepTarOpen fs [v], nb := 0\<rparr>"
  from Cons.prems have ok: "visit_ok Rel dir fs v" and oks: "list_all (visit_ok Rel dir fs) vs" by simp_all
  have s: "walkFn Rel dir relativePath StreamFile keepTarOpen fs v tw = (None, tw1)"
    unfolding tw1_def by (rule walkFn_StreamFile_archived [OF ok Cons.prems(2,3)])
  have t: "werr tw1 = None" "nb tw1 = 0" using Cons.prems(2) by (simp_all add: tw1_def)
  have "Walk (v # vs) (walkFn Rel dir relativePath StreamFile keepTarOpen fs) tw
          = Walk vs (walkFn Rel dir relativePath StreamFile keepTarOpen fs) tw1"
    using s by simp
  also have "\<dots> = (None, tw1\<lparr>out := out tw1 @ archived_walk Rel dir relativePath keepTarOpen fs vs, nb := 0\<rparr>)"
    by (rule Cons.IH [OF oks t])
  also have "tw1\<lparr>out := out tw1 @ archived_walk Rel dir relativePath keepTarOpen fs vs, nb := 0\<rparr>
               = tw\<lparr>out := out tw @ archived_walk Rel dir relativePath keepTarOpen fs (v # vs), nb := 0\<rparr>"
    unfolding archived_walk_Cons [of _ _ _ _ _ v vs] by (simp add: tw1_def)
  finally show ?case .
qed

text \<open>
  C10. \<^verbatim>\<open>Stream\<close> with a nil handler is \<^verbatim>\<open>Stream\<close> with \<^verbatim>\<open>StreamFile\<close>, on every walk.
  When every visit of the walk can be archived (no walk error, a relative directory,
  a header, a regular file on disk with the size it was stat'ed with), \<^verbatim>\<open>Stream\<close>
  succeeds and the sink receives, after what it held, one entry for every visit in the
  order of the walk, the root skipped unless the archive is kept open: the header built
  from the file's info, named by the file's own base name below the logical prefix
  joined with its directory relative to the root, and for a regular file all its bytes
  as they are on disk; then the end markers, unless the archive is kept open.
\<close>

theorem Stream_nil_writeFunc_archives_every_entry:
  "Stream w Rel walk fs dir relativePath None keepTarOpen
     = Stream w Rel walk fs dir relativePath (Some StreamFile) keepTarOpen
   \<and> (list_all (visit_ok Rel dir fs) walk \<longrightarrow>
        Stream w Rel walk fs dir relativePath None keepTarOpen
          = (None,
             if keepTarOpen
             then \<lparr>out = w @ archived_walk Rel dir relativePath keepTarOpen fs walk, nb = 0, werr = None\<rparr>
             else \<lparr>out = w @ archived_walk Rel dir relativePath keepTarOpen fs walk @ [Footer], nb = 0,
                   werr = Some ErrWriteAfterClose\<rparr>))"
proof (intro conjI impI)
  show "Stream w Rel walk fs dir relativePath None keepTarOpen
     = Stream w Rel walk fs dir relativePath (Some StreamFile) keepTarOpen"
    by (simp add: Stream_def)
next
  assume ok: "list_all (visit_ok Rel dir fs) walk"
  have "Walk walk (walkFn Rel dir relativePath StreamFile keepTarOpen fs) (NewWriter w)
          = (None, (NewWriter w)\<lparr>out := out (NewWriter w) @ archived_walk Rel dir relativePath keepTarOpen fs walk,
                                 nb := 0\<rparr>)"
    by (rule Walk_StreamFile_archived [OF ok]) (simp_all add: NewWriter_def)
  then show "Stream w Rel walk fs dir relativePath None keepTarOpen
          = (None,
             if keepTarOpen
             then \<lparr>out = w @ archived_walk Rel dir relativePath keepTarOpen fs walk, nb = 0, werr = None\<rparr>
             else \<lparr>out = w @ archived_walk Rel dir relativePath keepTarOpen fs walk @ [Footer], nb = 0,
                   werr = Some ErrWriteAfterClose\<rparr>)"
    by (simp add: Stream_def Let_def NewWriter_def tw_Flush_def tw_Close_def)
qed

theorem Stream_nil_writeFunc_archives_every_entry_witness:
  "list_all (visit_ok ex_Rel ''/shard/1'' ex_shard) ex_walk
   \<and> archived_walk ex_Rel ''/shard/1'' ''db/rp/1'' False ex_shard ex_walk
       = [Hdr \<lparr>Typeflag = TypeReg, Name = ''db/rp/1/a.tsm'', Linkname = [], Size = 3,
               Mode = 0x1A4, ModTime = 10\<rparr>, Data [1, 2, 3]]
   \<and> Stream [] ex_Rel ex_walk ex_shard ''/shard/1'' ''db/rp/1'' (Some StreamFile) False
       = (None,
          \<lparr>out = [Hdr \<lparr>Typeflag = TypeReg, Name = ''db/rp/1/a.tsm'', Linkname = [], Size = 3,
                       Mode = 0x1A4, ModTime = 10\<rparr>, Data [1, 2, 3], Footer],
           nb = 0, werr = Some ErrWriteAfterClose\<rparr>)
   \<and> \<not> list_all (visit_ok ex_Rel ''/shard/1'' ex_shard) ex_walk_shrunk"
proof -
  have ok: "list_all (visit_ok ex_Rel ''/shard/1'' ex_shard) ex_walk"
    by (simp add: stream_eval_defs)
  have a: "archived_walk ex_Rel ''/shard/1'' ''db/rp/1'' False ex_shard ex_walk
       = [Hdr \<lparr>Typeflag = TypeReg, Name = ''db/rp/1/a.tsm'', Linkname = [], Size = 3,
               Mode = 0x1A4, ModTime = 10\<rparr>, Data [1, 2, 3]]"
    by (simp add: stream_eval_defs archived_entry_def)
  have n: "\<not> list_all (visit_ok ex_Rel ''/shard/1'' ex_shard) ex_walk_shrunk"
    by (simp add: stream_eval_defs)
  note t = Stream_nil_writeFunc_archives_every_entry [of "[]" ex_Rel ex_walk ex_shard "''/shard/1''" "''db/rp/1''" False]
  note t1 = t [THEN conjunct1] and t2 = t [THEN conjunct2, THEN mp, OF ok]
  have "Stream [] ex_Rel ex_walk ex_shard ''/shard/1'' ''db/rp/1'' (Some StreamFile) False
          = Stream [] ex_Rel ex_walk ex_shard ''/shard/1'' ''db/rp/1'' None False"
    by (rule t1 [symmetric])
  also note t2
  finally have "Stream [] ex_Rel ex_walk ex_shard ''/shard/1'' ''db/rp/1'' (Some StreamFile) False
       = (None,
          \<lparr>out = [Hdr \<lparr>Typeflag = TypeReg, Name = ''db/rp/1/a.tsm'', Linkname = [], Size = 3,
                       Mode = 0x1A4, ModTime = 10\<rparr>, Data [1, 2, 3], Footer],
           nb = 0, werr = Some ErrWriteAfterClose\<rparr>)"
    unfolding a by simp
  with ok a n show ?thesis by simp
qed

subsection \<open>Entries that Restore mishandles\<close>

text \<open>
  What the guard of \<^verbatim>\<open>extractFile\<close> does reject: a name of fewer than three segments
  gives the error that names it, and the file system is left as it was.
\<close>

lemma extractFile_invalid_archive_path:
  assumes "Next tr = (Inr hdr, tr1)"
    and "length (strings_Split (FromSlash (Name hdr)) Separator) < 3"
  shows "extractFile tr dir fs = (Some (Errorf (''invalid archive path: '' @ Name hdr)), tr1, fs)"
  using assms by (simp add: extractFile_Next_header)

text \<open>
  C1, at the failing input. A regular-file entry named \<^verbatim>\<open>db/rp/1\<close> has three segments
  and passes the guard \<^verbatim>\<open>len(sections) < 3\<close>: its relative path is empty, the
  destination is the root itself, the payload is written to \<^verbatim>\<open>/data.tmp\<close> beside the
  root, and the error returned is that of the rename onto the root directory, not
  "invalid archive path".
\<close>

theorem extractFile_three_segments_accepted:
  "fst (extractFile (NewReader [Rec (ex_hdr ''db/rp/1'') [1, 2]]) ''/data'' ex_data)
     = Some (PathError ''rename'' ''/data'' EISDIR)
   \<and> nodes (snd (snd (extractFile (NewReader [Rec (ex_hdr ''db/rp/1'') [1, 2]]) ''/data'' ex_data))) ''/data.tmp''
     = Some (File 0x1A4 [1, 2])"
  by code_simp

text \<open>
  C2, at the failing input. For the directory entry \<^verbatim>\<open>db/rp/1/index\<close>,
  \<^verbatim>\<open>extractFile\<close> calls \<^verbatim>\<open>MkdirAll\<close> on the parent of the entry's relative path,
  here the destination root, which exists: it succeeds and \<^verbatim>\<open>/data/index\<close> is not
  created.
\<close>

theorem extractFile_directory_entry_not_created:
  "extractFile (NewReader [Rec ((ex_hdr ''db/rp/1/index'')\<lparr>Typeflag := TypeDir, Size := 0, Mode := 0x1C0\<rparr>) []])
       ''/data'' ex_data
     = (None, \<lparr>pending = [], curr = []\<rparr>, ex_data)
   \<and> nodes ex_data ''/data/index'' = None"
  by (simp add: extractFile_def Next_def NewReader_def isHeaderOnlyType_def ex_hdr_def
        FromSlash_def FromSlash_on_def Separator_def IsPathSeparator_def
        TypeDir_def TypeReg_def TypeLink_def TypeSymlink_def TypeChar_def TypeBlock_def TypeFifo_def
        Join_def Join_on_def Clean_def Clean_on_def Split_def MkdirAll_def path_prefixes_def stat_def
        ex_data_def Perm_def ModePerm_def Let_def)

text \<open>
  C3, at the failing input. The temporary file is opened with
  \<^verbatim>\<open>O_CREATE|O_RDWR\<close>, without \<^verbatim>\<open>O_TRUNC\<close>: a file left at
  \<^verbatim>\<open>/data/a.tsm.tmp\<close> with five bytes and mode 0600 keeps its mode and its last three
  bytes under the two bytes of the entry, and is renamed to \<^verbatim>\<open>/data/a.tsm\<close> like that.
\<close>

theorem CreateFileFromTar_keeps_stale_bytes:
  "(case CreateFileFromTar ''/data/a.tsm'' \<lparr>pending = [], curr = [1, 2]\<rparr> (ex_hdr ''db/rp/1/a.tsm'')
           (ex_data\<lparr>nodes := (nodes ex_data)(''/data/a.tsm.tmp'' \<mapsto> File 0x180 [9, 9, 9, 9, 9])\<rparr>) of
      (err, tr, fs) \<Rightarrow> (err, nodes fs ''/data/a.tsm'', nodes fs ''/data/a.tsm.tmp''))
   = (None, Some (File 0x180 [1, 2, 9, 9, 9]), None)"
  by code_simp

end
